theory Spec2Isabelle
  imports Complex_Main "HOL-Library.Word" "HOL-Library.Sublist"
begin

section \<open>Common ground\<close>

text \<open>
  Exceptions and undefined behaviour are values.  A function of the source that can
  throw returns \<open>cpp_error + 'a\<close>, with \<open>Inl\<close> for the exception.  The first three
  are exceptions derived from \<open>std::exception\<close> (\<open>std_exception\<close> is any other such
  exception, with its \<open>what()\<close>); a failed \<open>assert\<close> aborts the process, and undefined
  behaviour leaves it without a defined outcome.
\<close>

datatype cpp_error =
    std_out_of_range
  | std_runtime_error string
  | std_exception string
  | assertion_failed
  | undefined_behaviour string

text \<open>
  A C++ \<open>float\<close> as far as the source looks at one: it only compares flank scores with
  a constant.  A finite float is a rational number; a comparison with NaN is false.
\<close>

datatype cfloat = Finite rat | PlusInfinity | MinusInfinity | NaN

fun float_gt :: "cfloat \<Rightarrow> rat \<Rightarrow> bool" where
  "float_gt (Finite x) t = (t < x)"
| "float_gt PlusInfinity t = True"
| "float_gt MinusInfinity t = False"
| "float_gt NaN t = False"

text \<open>
  An \<open>int\<close> converted to \<open>size_t\<close> (64 bits), and the value of a product formed in 32-bit
  \<open>int\<close>: signed overflow is undefined in C++, and the machine wraps in two's complement.
\<close>

definition size_t_of_int :: "int \<Rightarrow> nat" where
  "size_t_of_int x = nat (x mod 2 ^ 64)"

definition int32_of :: "int \<Rightarrow> int" where
  "int32_of x = (x + 2 ^ 31) mod 2 ^ 32 - 2 ^ 31"

section \<open>BarcodeClassifierNode.cpp: the trim interval\<close>

definition UNCLASSIFIED_BARCODE :: string where
  "UNCLASSIFIED_BARCODE = ''unclassified''"

text \<open>
  \<open>BarcodeScoreResult\<close> is declared in demux/BarcodeClassifier.h; the fields are the ones
  the node reads.  Positions are C++ \<open>int\<close>s, modelled as unbounded integers: the only
  arithmetic on them is \<open>+ 1\<close>, whose signed overflow is undefined in C++.
\<close>

record BarcodeScoreResult =
  kit :: string
  barcode_name :: string
  top_flank_score :: cfloat
  bottom_flank_score :: cfloat
  top_barcode_pos :: "int \<times> int"
  bottom_barcode_pos :: "int \<times> int"
  use_top :: bool

text \<open>
  \<open>barcode_kits::KitInfo\<close> and the table \<open>barcode_kits::get_kit_infos()\<close> live in
  utils/barcode_kits.h; the table is a parameter of the model, and of a kit only
  \<open>double_ends\<close> is read.
\<close>

record KitInfo =
  double_ends :: bool

text \<open>
  \<open>const float kFlankScoreThres = 0.6f\<close>: the single-precision number nearest to 0.6,
  which is 10066330 / 2^24.
\<close>

definition kFlankScoreThres :: rat where
  "kFlankScoreThres = 5033165 / 8388608"

text \<open>
  \<open>kit_info_map.at(res.kit)\<close> throws \<open>std::out_of_range\<close> for a kit that the table does
  not have.  In the double-ended branch the source returns from inside the first
  \<open>second <= first\<close> test, so the test at the end of the function, written out in both
  branches here, can only succeed in the single-ended one.
\<close>

definition determine_trim_interval ::
  "(string \<rightharpoonup> KitInfo) \<Rightarrow> BarcodeScoreResult \<Rightarrow> int \<Rightarrow> cpp_error + (int \<times> int)" where
  "determine_trim_interval kit_info_map res seqlen =
     (if kit res = UNCLASSIFIED_BARCODE then Inr (0, seqlen)
      else case kit_info_map (kit res) of
        None \<Rightarrow> Inl std_out_of_range
      | Some kit_info \<Rightarrow>
          if double_ends kit_info then
            (let first = (if float_gt (top_flank_score res) kFlankScoreThres
                          then snd (top_barcode_pos res) + 1 else 0);
                 second = (if float_gt (bottom_flank_score res) kFlankScoreThres
                           then fst (bottom_barcode_pos res) else seqlen)
             in if second \<le> first then
                  (if use_top res
                   then Inr (fst (top_barcode_pos res), snd (top_barcode_pos res) + 1)
                   else Inr (fst (bottom_barcode_pos res), snd (bottom_barcode_pos res) + 1))
                else if second \<le> first then Inr (0, seqlen)
                else Inr (first, second))
          else
            (let first = (if float_gt (top_flank_score res) kFlankScoreThres
                          then snd (top_barcode_pos res) + 1 else 0);
                 second = seqlen
             in if second \<le> first then Inr (0, seqlen)
                else Inr (first, second)))"

text \<open>Scenario E of the specification, for a table with one double-ended kit.\<close>

definition scenario_E :: BarcodeScoreResult where
  "scenario_E =
     \<lparr>kit = ''KIT'', barcode_name = ''BC01'',
      top_flank_score = Finite (9 / 10), bottom_flank_score = Finite (9 / 10),
      top_barcode_pos = (0, 40), bottom_barcode_pos = (5, 45), use_top = True\<rparr>"

definition double_ended_kits :: "string \<rightharpoonup> KitInfo" where
  "double_ended_kits = [''KIT'' \<mapsto> \<lparr>double_ends = True\<rparr>]"




section \<open>BarcodeClassifierNode.cpp: trimming a simplex read\<close>

text \<open>
  \<open>SimplexRead::read_common\<close> is declared in read_pipeline/messages.h; the fields are the ones
  \<open>trim_barcode\<close> touches, typed as the data model of the specification types them
  (\<open>model_stride\<close> a positive integer, \<open>num_trimmed_samples\<close> a non-negative one, the
  byte vectors as lists of 8-bit words).
\<close>

record ModBaseInfo =
  alphabet :: string

record SimplexRead =
  read_id :: string
  seq :: string
  qstring :: string
  moves :: "8 word list"
  model_stride :: nat
  num_trimmed_samples :: nat
  mod_base_info :: "ModBaseInfo option"
  base_mod_probs :: "8 word list"
  barcode_trim_interval :: "int \<times> int"

text \<open>
  The helpers of utils/trim.h are not part of the excerpt; \<open>trim_barcode\<close> is modelled over
  any three functions of their signatures.
\<close>

record trim_utils =
  trim_sequence :: "string \<Rightarrow> int \<times> int \<Rightarrow> string"
  trim_quality :: "8 word list \<Rightarrow> int \<times> int \<Rightarrow> 8 word list"
  trim_move_table :: "8 word list \<Rightarrow> int \<times> int \<Rightarrow> nat \<times> 8 word list"

definition trim_barcode :: "trim_utils \<Rightarrow> SimplexRead \<Rightarrow> int \<times> int \<Rightarrow> SimplexRead" where
  "trim_barcode utils read trim_interval =
     (if snd trim_interval - fst trim_interval = int (length (seq read)) then read
      else
        let read1 = read\<lparr>seq := trim_sequence utils (seq read) trim_interval\<rparr>;
            read2 = read1\<lparr>qstring := trim_sequence utils (qstring read1) trim_interval\<rparr>;
            (num_positions_trimmed, trimmed_moves) =
               trim_move_table utils (moves read2) trim_interval;
            read3 = read2\<lparr>moves := trimmed_moves\<rparr>;
            read4 = read3\<lparr>num_trimmed_samples :=
                       num_trimmed_samples read3 + model_stride read3 * num_positions_trimmed\<rparr>
        in case mod_base_info read4 of
             None \<Rightarrow> read4
           | Some info \<Rightarrow>
               (let num_modbase_channels = int (length (alphabet info));
                    modbase_interval = (fst trim_interval * num_modbase_channels,
                                        snd trim_interval * num_modbase_channels)
                in read4\<lparr>base_mod_probs :=
                            trim_quality utils (base_mod_probs read4) modbase_interval\<rparr>))"

text \<open>Substring-style helpers, used to run \<open>trim_barcode\<close> on a concrete read.\<close>

definition slice :: "'a list \<Rightarrow> int \<times> int \<Rightarrow> 'a list" where
  "slice xs iv = take (nat (snd iv - fst iv)) (drop (nat (fst iv)) xs)"

definition slicing_utils :: trim_utils where
  "slicing_utils =
     \<lparr>trim_sequence = slice, trim_quality = slice,
      trim_move_table = (\<lambda>mv iv. (nat (fst iv), slice mv iv))\<rparr>"

definition example_read :: SimplexRead where
  "example_read =
     \<lparr>read_id = ''read_id'', seq = ''ACG'', qstring = ''#%&'',
      moves = [1, 0, 1, 1], model_stride = 5, num_trimmed_samples = 10,
      mod_base_info = Some \<lparr>alphabet = ''ACmGT''\<rparr>,
      base_mod_probs = [255, 0, 0, 0, 0, 0, 200, 55, 0, 0, 0, 0, 0, 255, 0],
      barcode_trim_interval = (1, 3)\<rparr>"

section \<open>BarcodeClassifierNode.cpp: the worker\<close>

text \<open>
  \<open>Message\<close> is the variant of read_pipeline/messages.h, with the alternatives the data
  model of the specification lists.  BAM records and duplex reads are opaque here.
\<close>

record ('o, 'c) CorrectionAlignments =
  read_name :: string
  qnames :: "string list"
  overlaps :: "'o list"
  cigars :: "'c list"

datatype ('bam, 'duplex, 'o, 'c) Message =
    SimplexReadPtr SimplexRead
  | DuplexReadPtr 'duplex
  | BamPtr 'bam
  | CorrectionAlignmentsMsg "('o, 'c) CorrectionAlignments"

text \<open>
  One worker draining the input queue: \<open>get_input_message\<close> yields the queued messages in
  order and then false; \<open>send_message_to_sink\<close> appends to what the sink has received.
  The two \<open>barcode\<close> overloads are parameters (they need the barcoder and htslib); either
  may throw, which ends the worker.
\<close>

fun worker_thread ::
  "('bam \<Rightarrow> cpp_error + 'bam) \<Rightarrow> (SimplexRead \<Rightarrow> cpp_error + SimplexRead) \<Rightarrow>
   ('bam, 'duplex, 'o, 'c) Message list \<Rightarrow> ('bam, 'duplex, 'o, 'c) Message list \<Rightarrow>
   cpp_error + ('bam, 'duplex, 'o, 'c) Message list" where
  "worker_thread barcode_bam barcode_read [] sink = Inr sink"
| "worker_thread barcode_bam barcode_read (message # queue) sink =
     (case message of
        BamPtr read \<Rightarrow>
          (case barcode_bam read of
             Inl e \<Rightarrow> Inl e
           | Inr read' \<Rightarrow> worker_thread barcode_bam barcode_read queue (sink @ [BamPtr read']))
      | SimplexReadPtr read \<Rightarrow>
          (case barcode_read read of
             Inl e \<Rightarrow> Inl e
           | Inr read' \<Rightarrow>
               worker_thread barcode_bam barcode_read queue (sink @ [SimplexReadPtr read']))
      | _ \<Rightarrow> worker_thread barcode_bam barcode_read queue (sink @ [message]))"

definition holds_bam_or_simplex :: "('bam, 'duplex, 'o, 'c) Message \<Rightarrow> bool" where
  "holds_bam_or_simplex message =
     (case message of BamPtr _ \<Rightarrow> True | SimplexReadPtr _ \<Rightarrow> True | _ \<Rightarrow> False)"

section \<open>ErrorCorrectionPafWriterNode.cpp\<close>

text \<open>
  What the node can act on: standard output, as the list of records written so far (each
  is the text of one \<open>serialize_to_paf\<close> call, ended by \<open>std::endl\<close>), and the messages
  handed to a sink.  \<open>utils::serialize_to_paf\<close> is a parameter: the text it writes for its
  arguments.
\<close>

record ('bam, 'duplex, 'o, 'c) paf_writer_io =
  cout :: "string list"
  sent_to_sink :: "('bam, 'duplex, 'o, 'c) Message list"

text \<open>
  The \<open>for\<close> loop over \<open>alignments.qnames\<close>, from index \<open>i\<close>.  \<open>operator[]\<close> beyond the
  end of \<open>overlaps\<close> or \<open>cigars\<close> is undefined behaviour.
\<close>

function write_alignments ::
  "(string \<Rightarrow> string \<Rightarrow> 'o \<Rightarrow> int \<Rightarrow> int \<Rightarrow> int \<Rightarrow> 'c \<Rightarrow> string) \<Rightarrow>
   ('o, 'c) CorrectionAlignments \<Rightarrow> nat \<Rightarrow> string list \<Rightarrow> cpp_error + string list" where
  "write_alignments serialize_to_paf alignments i out =
     (if i < length (qnames alignments) then
        (if i < length (overlaps alignments) \<and> i < length (cigars alignments) then
           write_alignments serialize_to_paf alignments (Suc i)
             (out @ [serialize_to_paf (qnames alignments ! i) (read_name alignments)
                       (overlaps alignments ! i) 0 0 60 (cigars alignments ! i)])
         else Inl (undefined_behaviour ''vector subscript out of range''))
      else Inr out)"
  by pat_completeness auto
termination
  by (relation "measure (\<lambda>(s, alignments, i, out). length (qnames alignments) - i)") auto

declare write_alignments.simps [simp del]

fun input_thread_fn ::
  "(string \<Rightarrow> string \<Rightarrow> 'o \<Rightarrow> int \<Rightarrow> int \<Rightarrow> int \<Rightarrow> 'c \<Rightarrow> string) \<Rightarrow>
   ('bam, 'duplex, 'o, 'c) Message list \<Rightarrow> ('bam, 'duplex, 'o, 'c) paf_writer_io \<Rightarrow>
   cpp_error + ('bam, 'duplex, 'o, 'c) paf_writer_io" where
  "input_thread_fn serialize_to_paf [] io = Inr io"
| "input_thread_fn serialize_to_paf (message # queue) io =
     (case message of
        CorrectionAlignmentsMsg alignments \<Rightarrow>
          (case write_alignments serialize_to_paf alignments 0 (cout io) of
             Inl e \<Rightarrow> Inl e
           | Inr out \<Rightarrow> input_thread_fn serialize_to_paf queue (io\<lparr>cout := out\<rparr>))
      | _ \<Rightarrow> input_thread_fn serialize_to_paf queue io)"

text \<open>The number of qnames carried by the \<open>CorrectionAlignments\<close> messages of a queue.\<close>

fun num_qnames :: "('bam, 'duplex, 'o, 'c) Message list \<Rightarrow> nat" where
  "num_qnames [] = 0"
| "num_qnames (CorrectionAlignmentsMsg alignments # queue) =
     length (qnames alignments) + num_qnames queue"
| "num_qnames (_ # queue) = num_qnames queue"

definition example_alignments :: "(nat, string) CorrectionAlignments" where
  "example_alignments =
     \<lparr>read_name = ''target'', qnames = [''q1'', ''q2''], overlaps = [7, 8],
      cigars = [''10M'', ''4M1D''] \<rparr>"

definition example_serialize ::
  "string \<Rightarrow> string \<Rightarrow> nat \<Rightarrow> int \<Rightarrow> int \<Rightarrow> int \<Rightarrow> string \<Rightarrow> string" where
  "example_serialize qname tname ovl a b mapq cigar = qname @ ''|'' @ tname @ ''|'' @ cigar"

section \<open>HtsReader.h: get_tag\<close>

text \<open>
  \<open>get_tag<T>\<close> is a template; the model takes a description of \<open>T\<close>: the three type
  traits the \<open>if constexpr\<close> chain tests, and \<open>typeid(T).name()\<close>.
\<close>

record ctype =
  is_integral :: bool
  is_floating_point :: bool
  is_constructible_from_char_ptr :: bool
  type_name :: string

datatype cvalue =
    IntegralValue int
  | FloatingValue cfloat
  | StringValue string
  | ObjectValue

text \<open>
  \<open>T tag_value{}\<close>: value-initialization gives zero for an arithmetic type and the empty
  string for a string type.
\<close>

definition value_initialized :: "ctype \<Rightarrow> cvalue" where
  "value_initialized T =
     (if is_integral T then IntegralValue 0
      else if is_floating_point T then FloatingValue (Finite 0)
      else if is_constructible_from_char_ptr T then StringValue []
      else ObjectValue)"

text \<open>
  htslib is a parameter: \<open>bam_aux_get\<close> finds a tag of a record or returns null, the
  \<open>bam_aux2*\<close> functions read a tag.  \<open>bam_aux2Z\<close> returns a \<open>char*\<close>, which is null
  (\<open>None\<close>) for a tag that holds no string.  \<open>static_cast<T>\<close> of what was read is a
  parameter too; from a \<open>char*\<close> it constructs a \<open>T\<close>, and the constructor may throw.
\<close>

record ('rec, 'aux) htslib =
  bam_aux_get :: "'rec \<Rightarrow> string \<Rightarrow> 'aux option"
  bam_aux2i :: "'aux \<Rightarrow> int"
  bam_aux2f :: "'aux \<Rightarrow> cfloat"
  bam_aux2Z :: "'aux \<Rightarrow> string option"
  static_cast_integral :: "ctype \<Rightarrow> int \<Rightarrow> int"
  static_cast_floating :: "ctype \<Rightarrow> cfloat \<Rightarrow> cfloat"
  static_cast_char_ptr :: "ctype \<Rightarrow> string option \<Rightarrow> cpp_error + cvalue"

definition get_tag ::
  "('rec, 'aux) htslib \<Rightarrow> ctype \<Rightarrow> 'rec \<Rightarrow> string \<Rightarrow> cpp_error + cvalue" where
  "get_tag hts T record tagname =
     (case bam_aux_get hts record tagname of
        None \<Rightarrow> Inr (value_initialized T)
      | Some tag \<Rightarrow>
          if is_integral T then
            Inr (IntegralValue (static_cast_integral hts T (bam_aux2i hts tag)))
          else if is_floating_point T then
            Inr (FloatingValue (static_cast_floating hts T (bam_aux2f hts tag)))
          else if is_constructible_from_char_ptr T then
            static_cast_char_ptr hts T (bam_aux2Z hts tag)
          else Inl (std_runtime_error (''Cannot get_tag for type '' @ type_name T)))"

text \<open>
  To run \<open>get_tag\<close>: a record as an association of tag names to tags, read as htslib
  documents it (0 from \<open>bam_aux2i\<close> and \<open>bam_aux2f\<close> and null from \<open>bam_aux2Z\<close> for a tag of
  another type), and the construction of a \<open>std::string\<close>, which throws
  \<open>std::logic_error\<close> on a null pointer.
\<close>

datatype aux_tag = IntTag int | FloatTag cfloat | StringTag string

definition sam_htslib :: "(string \<rightharpoonup> aux_tag, aux_tag) htslib" where
  "sam_htslib =
     \<lparr>bam_aux_get = (\<lambda>record tagname. record tagname),
      bam_aux2i = (\<lambda>tag. case tag of IntTag i \<Rightarrow> i | _ \<Rightarrow> 0),
      bam_aux2f = (\<lambda>tag. case tag of FloatTag f \<Rightarrow> f | IntTag i \<Rightarrow> Finite (of_int i)
                                  | _ \<Rightarrow> Finite 0),
      bam_aux2Z = (\<lambda>tag. case tag of StringTag s \<Rightarrow> Some s | _ \<Rightarrow> None),
      static_cast_integral = (\<lambda>T x. x), static_cast_floating = (\<lambda>T x. x),
      static_cast_char_ptr =
        (\<lambda>T p. case p of
                  None \<Rightarrow> Inl (std_exception ''basic_string: construction from null is not valid'')
                | Some s \<Rightarrow> Inr (StringValue s))\<rparr>"

definition int_type :: ctype where
  "int_type = \<lparr>is_integral = True, is_floating_point = False,
               is_constructible_from_char_ptr = False, type_name = ''i''\<rparr>"

definition string_type :: ctype where
  "string_type = \<lparr>is_integral = False, is_floating_point = False,
                  is_constructible_from_char_ptr = True, type_name = ''Ss''\<rparr>"

definition vector_type :: ctype where
  "vector_type = \<lparr>is_integral = False, is_floating_point = False,
                  is_constructible_from_char_ptr = False, type_name = ''St6vectorIiSaIiEE''\<rparr>"

section \<open>CorrectionNode.h: MemoryManager\<close>

definition WS :: int where "WS = 5120"

definition NR :: int where "NR = 31"

definition num_tensors :: nat where "num_tensors = 8 * 8"

text \<open>
  A pointer into \<open>m_bases_ptr\<close> is the index of the element it points to.
  \<open>tensor_size\<close> is a \<open>size_t\<close>; the product \<open>WS * NR * batch_size\<close> is formed in \<open>int\<close>
  and then converted.  The array has \<open>tensor_size * num_tensors\<close> elements and slab \<open>i\<close>
  begins at element \<open>i * tensor_size\<close>, both products in \<open>size_t\<close>.  The state of a
  \<open>MemoryManager\<close> is the length of its array and its queue of free slabs; every member
  function holds \<open>m_bases_mtx\<close> from start to end, so calls from several threads act one
  after the other on this state.  (The allocation in the constructor is taken to
  succeed.)
\<close>

definition tensor_size :: "int \<Rightarrow> nat" where
  "tensor_size batch_size = size_t_of_int (int32_of (WS * NR * batch_size))"

record MemoryManager =
  m_bases_len :: nat
  m_bases_locations :: "nat list"

definition MemoryManager_new :: "int \<Rightarrow> MemoryManager" where
  "MemoryManager_new batch_size =
     \<lparr>m_bases_len = (tensor_size batch_size * num_tensors) mod 2 ^ 64,
      m_bases_locations =
        map (\<lambda>i. (i * tensor_size batch_size) mod 2 ^ 64) [0 ..< num_tensors]\<rparr>"

definition get_next_ptr :: "MemoryManager \<Rightarrow> cpp_error + (nat \<times> MemoryManager)" where
  "get_next_ptr m =
     (if length (m_bases_locations m) = 0 then Inl (std_runtime_error ''No more pointers left!'')
      else Inr (hd (m_bases_locations m), m\<lparr>m_bases_locations := tl (m_bases_locations m)\<rparr>))"

definition return_ptr :: "nat \<Rightarrow> MemoryManager \<Rightarrow> MemoryManager" where
  "return_ptr ptr m = m\<lparr>m_bases_locations := m_bases_locations m @ [ptr]\<rparr>"

text \<open>\<open>n\<close> calls of \<open>get_next_ptr\<close> in a row, none of the slabs returned in between.\<close>

fun acquire :: "nat \<Rightarrow> MemoryManager \<Rightarrow> cpp_error + (nat list \<times> MemoryManager)" where
  "acquire 0 m = Inr ([], m)"
| "acquire (Suc n) m =
     (case get_next_ptr m of
        Inl e \<Rightarrow> Inl e
      | Inr (ptr, m') \<Rightarrow>
          (case acquire n m' of
             Inl e \<Rightarrow> Inl e
           | Inr (ptrs, m'') \<Rightarrow> Inr (ptr # ptrs, m'')))"

section \<open>cli/basecaller.cpp: setting up the pipeline\<close>

text \<open>
  The preprocessor picks one of three device branches: no GPU support
  (\<open>DORADO_GPU_BUILD\<close> off), Metal (\<open>__APPLE__\<close>) or CUDA; \<open>NDEBUG\<close> removes the \<open>assert\<close>.
\<close>

datatype gpu_build = NO_GPU_BUILD | APPLE_GPU_BUILD | CUDA_GPU_BUILD

record build =
  gpu :: gpu_build
  ndebug :: bool

text \<open>What \<open>setup\<close> asks of a \<open>Runner\<close>.\<close>

record Runner =
  runner_model_stride :: nat
  runner_chunk_size :: nat

text \<open>
  The collaborators of \<open>setup\<close>, as parameters.  A constructor that may throw returns a
  sum; \<open>create_caller\<close> returns the exception, if any.  \<open>run_pipeline\<close> stands for all that
  \<open>setup\<close> does after its two option checks (modified-base callers, read groups, writer,
  aligner, nodes, loading the reads, joining the writer): the exception it ends with, if
  any.
\<close>

record pipeline =
  basecaller_runners :: "Runner list"
  basecaller_batch_size :: nat
  basecaller_chunk_size :: nat
  basecaller_overlap :: nat
  basecaller_model_stride :: nat
  pipeline_num_devices :: nat
  pipeline_remora_models :: string
  pipeline_ref :: string
  pipeline_emit_fastq :: bool

record platform =
  hardware_concurrency :: nat
  auto_gpu_batch_size_metal :: nat
  auto_gpu_batch_size :: "string \<Rightarrow> string list \<Rightarrow> nat"
  parse_cuda_device_string :: "string \<Rightarrow> cpp_error + string list"
  create_caller :: "string \<Rightarrow> string \<Rightarrow> nat \<Rightarrow> nat \<Rightarrow> cpp_error option"
  new_runner :: "string \<Rightarrow> string \<Rightarrow> nat \<Rightarrow> nat \<Rightarrow> cpp_error + Runner"
  run_pipeline :: "pipeline \<Rightarrow> cpp_error option"

text \<open>The parameters of \<open>setup\<close> that the modelled part reads; \<open>size_t\<close> ones are naturals.\<close>

record setup_args =
  model_path :: string
  data_path :: string
  remora_models :: string
  device :: string
  ref :: string
  chunk_size :: nat
  overlap :: nat
  batch_size :: nat
  num_runners :: nat
  emit_fastq :: bool

text \<open>The loop \<open>for (i = 0; i < num_runners; i++) runners.push_back(...)\<close>.\<close>

primrec push_runners :: "nat \<Rightarrow> (cpp_error + Runner) \<Rightarrow> Runner list \<Rightarrow> cpp_error + Runner list" where
  "push_runners 0 constructed runners = Inr runners"
| "push_runners (Suc n) constructed runners =
     (case constructed of
        Inl e \<Rightarrow> Inl e
      | Inr runner \<Rightarrow> push_runners n constructed (runners @ [runner]))"

text \<open>The loop over the CUDA devices: one caller per device, \<open>num_runners\<close> runners on it.\<close>

fun cuda_runners ::
  "platform \<Rightarrow> setup_args \<Rightarrow> nat \<Rightarrow> string list \<Rightarrow> Runner list \<Rightarrow> cpp_error + Runner list" where
  "cuda_runners p a batch [] runners = Inr runners"
| "cuda_runners p a batch (device_string # devices) runners =
     (case create_caller p (model_path a) device_string (chunk_size a) batch of
        Some e \<Rightarrow> Inl e
      | None \<Rightarrow>
          (case push_runners (num_runners a)
                  (new_runner p (model_path a) device_string (chunk_size a) batch) runners of
             Inl e \<Rightarrow> Inl e
           | Inr runners' \<Rightarrow> cuda_runners p a batch devices runners'))"

text \<open>
  Lines 95 to 142 of \<open>setup\<close>: the batch size, the number of devices and the runners, or
  the exception thrown.  Without GPU support no branch handles a device other than "cpu",
  and the vector of runners stays empty.
\<close>

definition create_runners ::
  "build \<Rightarrow> platform \<Rightarrow> setup_args \<Rightarrow> cpp_error + (nat \<times> nat \<times> Runner list)" where
  "create_runners b p a =
     (if device a = ''cpu'' then
        (let batch = (if batch_size a = 0 then hardware_concurrency p else batch_size a)
         in case push_runners (num_runners a)
                   (new_runner p (model_path a) (device a) (chunk_size a) batch) [] of
              Inl e \<Rightarrow> Inl e
            | Inr runners \<Rightarrow> Inr (batch, 1, runners))
      else case gpu b of
        NO_GPU_BUILD \<Rightarrow> Inr (batch_size a, 1, [])
      | APPLE_GPU_BUILD \<Rightarrow>
          if device a = ''metal'' then
            (let batch = (if batch_size a = 0 then auto_gpu_batch_size_metal p
                          else batch_size a)
             in case create_caller p (model_path a) (device a) (chunk_size a) batch of
                  Some e \<Rightarrow> Inl e
                | None \<Rightarrow>
                    (case push_runners (num_runners a)
                            (new_runner p (model_path a) (device a) (chunk_size a) batch) [] of
                       Inl e \<Rightarrow> Inl e
                     | Inr runners \<Rightarrow> Inr (batch, 1, runners)))
          else Inl (std_runtime_error (''Unsupported device: '' @ device a))
      | CUDA_GPU_BUILD \<Rightarrow>
          (case parse_cuda_device_string p (device a) of
             Inl e \<Rightarrow> Inl e
           | Inr devices \<Rightarrow>
               if length devices = 0 then
                 Inl (std_runtime_error ''CUDA device requested but no devices found.'')
               else
                 (let batch = (if batch_size a = 0
                               then auto_gpu_batch_size p (model_path a) devices
                               else batch_size a)
                  in case cuda_runners p a batch devices [] of
                       Inl e \<Rightarrow> Inl e
                     | Inr runners \<Rightarrow> Inr (batch, length devices, runners))))"

text \<open>
  The function \<open>setup\<close> of the source (the name is an Isabelle keyword).  The first runner
  is read with \<open>front()\<close>, undefined on an empty vector; the overlap is divided by the
  stride of the model.  The result is the pipeline that was built and run.
\<close>

definition setup_impl :: "build \<Rightarrow> platform \<Rightarrow> setup_args \<Rightarrow> cpp_error + pipeline" where
  "setup_impl b p a =
     (case create_runners b p a of
        Inl e \<Rightarrow> Inl e
      | Inr (batch, num_devices, runners) \<Rightarrow>
          (case runners of
             [] \<Rightarrow> Inl (undefined_behaviour ''front() of an empty vector'')
           | front # _ \<Rightarrow>
               let model_stride = runner_model_stride front;
                   adjusted_chunk_size = runner_chunk_size front
               in if \<not> ndebug b \<and>
                     \<not> list_all (\<lambda>runner. runner_model_stride runner = model_stride \<and>
                                          runner_chunk_size runner = adjusted_chunk_size) runners
                  then Inl assertion_failed
                  else
                    let chunk = (if chunk_size a \<noteq> adjusted_chunk_size
                                 then adjusted_chunk_size else chunk_size a)
                    in if model_stride = 0 then Inl (undefined_behaviour ''division by zero'')
                       else
                         let adjusted_overlap = (overlap a div model_stride) * model_stride;
                             ovl = (if overlap a \<noteq> adjusted_overlap
                                    then adjusted_overlap else overlap a)
                         in if remora_models a \<noteq> [] \<and> emit_fastq a then
                              Inl (std_runtime_error
                                     ''Modified base models cannot be used with FASTQ output'')
                            else if ref a \<noteq> [] \<and> emit_fastq a then
                              Inl (std_runtime_error
                                     ''Alignment to reference can be used with FASTQ output.'')
                            else
                              (let built =
                                     \<lparr>basecaller_runners = runners,
                                      basecaller_batch_size = batch,
                                      basecaller_chunk_size = chunk,
                                      basecaller_overlap = ovl,
                                      basecaller_model_stride = model_stride,
                                      pipeline_num_devices = num_devices,
                                      pipeline_remora_models = remora_models a,
                                      pipeline_ref = ref a,
                                      pipeline_emit_fastq = emit_fastq a\<rparr>
                               in case run_pipeline p built of
                                    Some e \<Rightarrow> Inl e
                                  | None \<Rightarrow> Inr built)))"

section \<open>cli/basecaller.cpp: the command\<close>

text \<open>How the process ends: with an exit code, by \<open>abort()\<close>, or without a defined outcome.\<close>

datatype process_end = Exit int | Abort | Unspecified

text \<open>
  Modelled from the spec: the macro \<open>EXIT_FAILURE\<close> of the C++ standard library, which no
  file of the excerpt defines; the specification gives the exit code 1 for every fatal
  error.
\<close>

definition EXIT_FAILURE :: int where
  "EXIT_FAILURE = 1"

text \<open>The options \<open>basecaller\<close> passes on, as the argument parser holds them.\<close>

record cli_options =
  opt_model :: string
  opt_data :: string
  opt_device :: string
  opt_ref :: string
  opt_chunksize :: int
  opt_overlap :: int
  opt_batchsize :: int
  opt_modified_bases :: "string list"
  opt_modified_bases_models :: string
  opt_emit_fastq :: bool

text \<open>
  \<open>parser.parse_args\<close> throws, or the action of \<open>--modified-bases\<close> meets an unsupported
  modification and exits, or the options are there.
\<close>

datatype parse_outcome =
    parse_exception string
  | unsupported_modification string
  | parsed cli_options

text \<open>\<open>std::accumulate(std::next(m.begin()), m.end(), m[0], ...)\<close> with a comma between.\<close>

definition accumulate_models :: "string list \<Rightarrow> string" where
  "accumulate_models m = foldl (\<lambda>a b. a @ '','' @ b) (hd m) (tl m)"

text \<open>
  The arguments of the call of \<open>setup\<close>.  \<open>default_parameters.num_runners\<close>
  (utils/parameters.h) and \<open>utils::get_modification_model\<close> are parameters; the latter
  and the getters of the parser are taken to return.
\<close>

definition setup_arguments ::
  "nat \<Rightarrow> (string \<Rightarrow> string \<Rightarrow> string) \<Rightarrow> cli_options \<Rightarrow> setup_args" where
  "setup_arguments default_num_runners get_modification_model opts =
     \<lparr>model_path = opt_model opts,
      data_path = opt_data opts,
      remora_models =
        (if opt_modified_bases opts \<noteq> []
         then accumulate_models
                (map (get_modification_model (opt_model opts)) (opt_modified_bases opts))
         else opt_modified_bases_models opts),
      device = opt_device opts,
      ref = opt_ref opts,
      chunk_size = size_t_of_int (opt_chunksize opts),
      overlap = size_t_of_int (opt_overlap opts),
      batch_size = size_t_of_int (opt_batchsize opts),
      num_runners = default_num_runners,
      emit_fastq = opt_emit_fastq opts\<rparr>"

text \<open>What \<open>catch (const std::exception&)\<close> catches.\<close>

fun is_std_exception :: "cpp_error \<Rightarrow> bool" where
  "is_std_exception std_out_of_range = True"
| "is_std_exception (std_runtime_error what) = True"
| "is_std_exception (std_exception what) = True"
| "is_std_exception assertion_failed = False"
| "is_std_exception (undefined_behaviour what) = False"

definition basecaller ::
  "build \<Rightarrow> platform \<Rightarrow> nat \<Rightarrow> (string \<Rightarrow> string \<Rightarrow> string) \<Rightarrow> parse_outcome \<Rightarrow>
   process_end" where
  "basecaller b p default_num_runners get_modification_model outcome =
     (case outcome of
        parse_exception what \<Rightarrow> Exit 1
      | unsupported_modification v \<Rightarrow> Exit EXIT_FAILURE
      | parsed opts \<Rightarrow>
          if opt_modified_bases opts \<noteq> [] \<and> opt_modified_bases_models opts \<noteq> [] then
            Exit EXIT_FAILURE
          else
            (case setup_impl b p
                    (setup_arguments default_num_runners get_modification_model opts) of
               Inr built \<Rightarrow> Exit 0
             | Inl e \<Rightarrow>
                 if is_std_exception e then Exit 1
                 else if e = assertion_failed then Abort
                 else Unspecified))"

text \<open>A CPU run on which every collaborator succeeds, and its options.\<close>

definition cpu_platform :: platform where
  "cpu_platform =
     \<lparr>hardware_concurrency = 8,
      auto_gpu_batch_size_metal = 96,
      auto_gpu_batch_size = (\<lambda>model devices. 64 * length devices),
      parse_cuda_device_string = (\<lambda>device. Inr [''cuda:0'', ''cuda:1'']),
      create_caller = (\<lambda>model device chunk batch. None),
      new_runner = (\<lambda>model device chunk batch.
                      Inr \<lparr>runner_model_stride = 5, runner_chunk_size = (chunk div 5) * 5\<rparr>),
      run_pipeline = (\<lambda>built. None)\<rparr>"

definition fastq_options :: cli_options where
  "fastq_options =
     \<lparr>opt_model = ''model'', opt_data = ''data'', opt_device = ''cpu'', opt_ref = [],
      opt_chunksize = 10000, opt_overlap = 500, opt_batchsize = 0,
      opt_modified_bases = [], opt_modified_bases_models = [], opt_emit_fastq = True\<rparr>"

definition release_build :: build where
  "release_build = \<lparr>gpu = NO_GPU_BUILD, ndebug = True\<rparr>"

definition metal_build :: build where
  "metal_build = \<lparr>gpu = APPLE_GPU_BUILD, ndebug = True\<rparr>"

definition cuda_build :: build where
  "cuda_build = \<lparr>gpu = CUDA_GPU_BUILD, ndebug = True\<rparr>"

definition model_of_modification :: "string \<Rightarrow> string \<Rightarrow> string" where
  "model_of_modification model modification = model @ ''_'' @ modification"

definition fastq_args :: setup_args where
  "fastq_args = setup_arguments 2 model_of_modification fastq_options"

definition modbase_fastq_options :: cli_options where
  "modbase_fastq_options = fastq_options\<lparr>opt_modified_bases_models := ''model_5mCG''\<rparr>"

text \<open>The forbidden options with a CUDA device, as given to a build without GPU support.\<close>

definition cuda_modbase_fastq_options :: cli_options where
  "cuda_modbase_fastq_options = modbase_fastq_options\<lparr>opt_device := ''cuda:0''\<rparr>"

definition ref_fastq_options :: cli_options where
  "ref_fastq_options = fastq_options\<lparr>opt_ref := ''ref.fasta''\<rparr>"

section \<open>The poly-A configuration (tests/PolyACalculatorTest.cpp)\<close>

text \<open>
  The keys of the TOML file that the test writes: the table \<open>anchors\<close> and the table
  \<open>tail\<close>; a key that is absent is \<open>None\<close>.
\<close>

record PolyTailToml =
  anchors_front_primer :: "string option"
  anchors_rear_primer :: "string option"
  anchors_plasmid_front_flank :: "string option"
  anchors_plasmid_rear_flank :: "string option"
  tail_tail_interrupt_length :: "int option"

text \<open>The fields of the configuration object that the test checks.\<close>

record PolyTailConfig =
  front_primer :: string
  rc_front_primer :: string
  rear_primer :: string
  rc_rear_primer :: string
  plasmid_front_flank :: string
  rc_plasmid_front_flank :: string
  plasmid_rear_flank :: string
  rc_plasmid_rear_flank :: string
  is_plasmid :: bool
  tail_interrupt_length :: int

text \<open>
  Modelled from the spec: \<open>utils::reverse_complement\<close>, which the excerpt does not contain.
  Sequences are over A, C, G, T; the values the test expects ("CGTA" gives "TACG",
  "AAAAAA" gives "TTTTTT") fix the reversed string of complemented bases.  Any other
  character is kept.
\<close>

fun complement_base :: "char \<Rightarrow> char" where
  "complement_base c =
     (if c = CHR ''A'' then CHR ''T''
      else if c = CHR ''T'' then CHR ''A''
      else if c = CHR ''C'' then CHR ''G''
      else if c = CHR ''G'' then CHR ''C''
      else c)"

definition reverse_complement :: "string \<Rightarrow> string" where
  "reverse_complement s = rev (map complement_base s)"

text \<open>
  Modelled from the spec: \<open>dorado::poly_tail::prepare_config\<close>, which the excerpt only
  calls from the test.  Scenario D of the specification and the test give its behaviour:
  the two primers come together or not at all, and so do the two plasmid flanks, with
  the error messages the test compares; given both flanks the configuration is a plasmid
  one; \<open>tail.tail_interrupt_length\<close> is taken over; each \<open>rc_\<close> field is the reverse
  complement of its field.  What the file does not set stays as in the default
  configuration, a parameter.
\<close>

definition prepare_config :: "PolyTailConfig \<Rightarrow> PolyTailToml \<Rightarrow> cpp_error + PolyTailConfig" where
  "prepare_config defaults toml =
     (if (anchors_front_primer toml = None) \<noteq> (anchors_rear_primer toml = None) then
        Inl (std_runtime_error
          ''Both front_primer and rear_primer must be provided in the PolyA configuration file.'')
      else if (anchors_plasmid_front_flank toml = None)
                \<noteq> (anchors_plasmid_rear_flank toml = None) then
        Inl (std_runtime_error
          (''Both plasmid_front_flank and plasmid_rear_flank must be provided in the ''
           @ ''PolyA configuration file.''))
      else
        let c1 = (case (anchors_front_primer toml, anchors_rear_primer toml) of
                    (Some front, Some rear) \<Rightarrow>
                      defaults\<lparr>front_primer := front, rear_primer := rear\<rparr>
                  | _ \<Rightarrow> defaults);
            c2 = (case (anchors_plasmid_front_flank toml, anchors_plasmid_rear_flank toml) of
                    (Some front, Some rear) \<Rightarrow>
                      c1\<lparr>plasmid_front_flank := front, plasmid_rear_flank := rear,
                         is_plasmid := True\<rparr>
                  | _ \<Rightarrow> c1);
            c3 = (case tail_tail_interrupt_length toml of
                    Some n \<Rightarrow> c2\<lparr>tail_interrupt_length := n\<rparr>
                  | None \<Rightarrow> c2)
        in Inr (c3\<lparr>rc_front_primer := reverse_complement (front_primer c3),
                   rc_rear_primer := reverse_complement (rear_primer c3),
                   rc_plasmid_front_flank := reverse_complement (plasmid_front_flank c3),
                   rc_plasmid_rear_flank := reverse_complement (plasmid_rear_flank c3)\<rparr>))"

text \<open>The files of the test sections, and a default configuration.\<close>

definition all_supported_toml :: PolyTailToml where
  "all_supported_toml =
     \<lparr>anchors_front_primer = Some ''AAAAAA'', anchors_rear_primer = Some ''GGGGGG'',
      anchors_plasmid_front_flank = Some ''CGTA'', anchors_plasmid_rear_flank = Some ''ACTG'',
      tail_tail_interrupt_length = Some 10\<rparr>"

definition only_one_flank_toml :: PolyTailToml where
  "only_one_flank_toml =
     \<lparr>anchors_front_primer = None, anchors_rear_primer = None,
      anchors_plasmid_front_flank = None, anchors_plasmid_rear_flank = Some ''ACTG'',
      tail_tail_interrupt_length = None\<rparr>"

definition default_config :: PolyTailConfig where
  "default_config =
     \<lparr>front_primer = ''TTTCTG'', rc_front_primer = [], rear_primer = ''ACTTGC'',
      rc_rear_primer = [], plasmid_front_flank = [], rc_plasmid_front_flank = [],
      plasmid_rear_flank = [], rc_plasmid_rear_flank = [], is_plasmid = False,
      tail_interrupt_length = 0\<rparr>"

section \<open>Properties of the trim interval\<close>

lemma scenario_E_classified: "kit scenario_E \<noteq> UNCLASSIFIED_BARCODE"
  by (simp add: scenario_E_def UNCLASSIFIED_BARCODE_def)

lemma scenario_E_kit: "double_ended_kits (kit scenario_E) = Some \<lparr>double_ends = True\<rparr>"
  by (simp add: scenario_E_def double_ended_kits_def)

text \<open>
  C1.  For a classified read of a double-ended kit the interval starts as \<open>[0, seqlen)\<close>;
  a top flank score above the threshold moves the start to one past the end of the top
  barcode window, a bottom flank score above the threshold moves the end to the start of
  the bottom barcode window, and when the interval so obtained has \<open>end \<le> start\<close> the
  function returns the window of the flank named by \<open>use_top\<close>, as \<open>(first, second + 1)\<close>.
  With the numbers of Scenario E (length 50, both scores 0.9, windows (0, 40) and (5, 45),
  \<open>use_top\<close> set) the function returns (0, 41).
\<close>

theorem determine_trim_interval_double_ended:
  assumes "kit res \<noteq> UNCLASSIFIED_BARCODE"
    and "kit_info_map (kit res) = Some kit_info"
    and "double_ends kit_info"
  shows "determine_trim_interval kit_info_map res seqlen =
      Inr (let start = (if float_gt (top_flank_score res) kFlankScoreThres
                        then snd (top_barcode_pos res) + 1 else 0);
               end = (if float_gt (bottom_flank_score res) kFlankScoreThres
                      then fst (bottom_barcode_pos res) else seqlen)
           in if end \<le> start
              then (if use_top res
                    then (fst (top_barcode_pos res), snd (top_barcode_pos res) + 1)
                    else (fst (bottom_barcode_pos res), snd (bottom_barcode_pos res) + 1))
              else (start, end))
    \<and> (seqlen = 50 \<and> top_flank_score res = Finite (9 / 10)
         \<and> bottom_flank_score res = Finite (9 / 10)
         \<and> top_barcode_pos res = (0, 40) \<and> bottom_barcode_pos res = (5, 45) \<and> use_top res
       \<longrightarrow> determine_trim_interval kit_info_map res seqlen = Inr (0, 41))"
  using assms
  by (simp add: determine_trim_interval_def Let_def kFlankScoreThres_def)

theorem determine_trim_interval_double_ended_witness:
  "kit scenario_E \<noteq> UNCLASSIFIED_BARCODE
   \<and> double_ended_kits (kit scenario_E) = Some \<lparr>double_ends = True\<rparr>
   \<and> double_ends \<lparr>double_ends = True\<rparr>
   \<and> top_flank_score scenario_E = Finite (9 / 10)
   \<and> bottom_flank_score scenario_E = Finite (9 / 10)
   \<and> top_barcode_pos scenario_E = (0, 40) \<and> bottom_barcode_pos scenario_E = (5, 45)
   \<and> use_top scenario_E
   \<and> determine_trim_interval double_ended_kits scenario_E 50 = Inr (0, 41)"
proof -
  have d: "double_ends \<lparr>double_ends = True\<rparr>" by simp
  have fields: "top_flank_score scenario_E = Finite (9 / 10)"
    "bottom_flank_score scenario_E = Finite (9 / 10)"
    "top_barcode_pos scenario_E = (0, 40)" "bottom_barcode_pos scenario_E = (5, 45)"
    "use_top scenario_E"
    by (simp_all add: scenario_E_def)
  from scenario_E_classified scenario_E_kit d
  have "determine_trim_interval double_ended_kits scenario_E 50 = Inr (0, 41)"
    using determine_trim_interval_double_ended
      [where res = scenario_E and kit_info_map = double_ended_kits
         and kit_info = "\<lparr>double_ends = True\<rparr>" and seqlen = 50] fields
    by blast
  with scenario_E_classified scenario_E_kit d fields show ?thesis by blast
qed





section \<open>Properties of trimming a simplex read\<close>

text \<open>
  C4.  When the width of the trim interval differs from the length of the sequence,
  \<open>trim_barcode\<close> replaces \<open>seq\<close> and \<open>qstring\<close> by \<open>trim_sequence\<close> of them, replaces
  \<open>moves\<close> by the move table \<open>trim_move_table\<close> returns, adds \<open>model_stride\<close> times the
  number of positions \<open>trim_move_table\<close> reports to \<open>num_trimmed_samples\<close>, and, when the
  read has modified-base information, replaces \<open>base_mod_probs\<close> by \<open>trim_quality\<close> of it
  over the interval with both ends multiplied by the number of channels (the size of the
  alphabet).  A read without modified-base information keeps its \<open>base_mod_probs\<close>.
\<close>

theorem trim_barcode_applies_trim:
  assumes "snd trim_interval - fst trim_interval \<noteq> int (length (seq read))"
  shows "seq (trim_barcode utils read trim_interval)
           = trim_sequence utils (seq read) trim_interval
    \<and> qstring (trim_barcode utils read trim_interval)
           = trim_sequence utils (qstring read) trim_interval
    \<and> moves (trim_barcode utils read trim_interval)
           = snd (trim_move_table utils (moves read) trim_interval)
    \<and> num_trimmed_samples (trim_barcode utils read trim_interval)
           = num_trimmed_samples read
             + model_stride read * fst (trim_move_table utils (moves read) trim_interval)
    \<and> (\<forall>info. mod_base_info read = Some info \<longrightarrow>
          base_mod_probs (trim_barcode utils read trim_interval)
            = trim_quality utils (base_mod_probs read)
                (fst trim_interval * int (length (alphabet info)),
                 snd trim_interval * int (length (alphabet info))))
    \<and> (mod_base_info read = None \<longrightarrow>
          base_mod_probs (trim_barcode utils read trim_interval) = base_mod_probs read)"
  using assms
  by (simp add: trim_barcode_def Let_def split: prod.split option.split)

theorem trim_barcode_applies_trim_witness:
  "snd (1::int, 3::int) - fst (1::int, 3::int) \<noteq> int (length (seq example_read))
   \<and> mod_base_info example_read = Some \<lparr>alphabet = ''ACmGT''\<rparr>
   \<and> seq (trim_barcode slicing_utils example_read (1, 3)) = ''CG''
   \<and> qstring (trim_barcode slicing_utils example_read (1, 3)) = ''%&''
   \<and> moves (trim_barcode slicing_utils example_read (1, 3)) = [0, 1]
   \<and> num_trimmed_samples (trim_barcode slicing_utils example_read (1, 3)) = 15
   \<and> base_mod_probs (trim_barcode slicing_utils example_read (1, 3))
        = [0, 200, 55, 0, 0, 0, 0, 0, 255, 0]
   \<and> mod_base_info (example_read\<lparr>mod_base_info := None\<rparr>) = None
   \<and> base_mod_probs (trim_barcode slicing_utils (example_read\<lparr>mod_base_info := None\<rparr>) (1, 3))
        = base_mod_probs example_read"
proof -
  have h: "snd (1::int, 3::int) - fst (1::int, 3::int) \<noteq> int (length (seq example_read))"
    by (simp add: example_read_def)
  have m: "mod_base_info example_read = Some \<lparr>alphabet = ''ACmGT''\<rparr>"
    by (simp add: example_read_def)
  from trim_barcode_applies_trim [OF h, of slicing_utils] m
  have "seq (trim_barcode slicing_utils example_read (1, 3))
          = trim_sequence slicing_utils (seq example_read) (1, 3)"
    and "qstring (trim_barcode slicing_utils example_read (1, 3))
          = trim_sequence slicing_utils (qstring example_read) (1, 3)"
    and "moves (trim_barcode slicing_utils example_read (1, 3))
          = snd (trim_move_table slicing_utils (moves example_read) (1, 3))"
    and "num_trimmed_samples (trim_barcode slicing_utils example_read (1, 3))
          = num_trimmed_samples example_read
            + model_stride example_read
              * fst (trim_move_table slicing_utils (moves example_read) (1, 3))"
    and "base_mod_probs (trim_barcode slicing_utils example_read (1, 3))
          = trim_quality slicing_utils (base_mod_probs example_read)
              (fst (1::int, 3::int) * int (length (alphabet \<lparr>alphabet = ''ACmGT''\<rparr>)),
               snd (1::int, 3::int) * int (length (alphabet \<lparr>alphabet = ''ACmGT''\<rparr>)))"
    by blast+
  then have with_info:
    "seq (trim_barcode slicing_utils example_read (1, 3)) = ''CG''"
    "qstring (trim_barcode slicing_utils example_read (1, 3)) = ''%&''"
    "moves (trim_barcode slicing_utils example_read (1, 3)) = [0, 1]"
    "num_trimmed_samples (trim_barcode slicing_utils example_read (1, 3)) = 15"
    "base_mod_probs (trim_barcode slicing_utils example_read (1, 3))
        = [0, 200, 55, 0, 0, 0, 0, 0, 255, 0]"
    by (simp_all add: example_read_def slicing_utils_def slice_def)
  have h': "snd (1::int, 3::int) - fst (1::int, 3::int)
              \<noteq> int (length (seq (example_read\<lparr>mod_base_info := None\<rparr>)))"
    by (simp add: example_read_def)
  have n: "mod_base_info (example_read\<lparr>mod_base_info := None\<rparr>) = None" by simp
  from trim_barcode_applies_trim [OF h', of slicing_utils] n
  have "base_mod_probs (trim_barcode slicing_utils (example_read\<lparr>mod_base_info := None\<rparr>) (1, 3))
          = base_mod_probs (example_read\<lparr>mod_base_info := None\<rparr>)"
    by blast
  then have without_info:
    "base_mod_probs (trim_barcode slicing_utils (example_read\<lparr>mod_base_info := None\<rparr>) (1, 3))
          = base_mod_probs example_read"
    by simp
  from h m with_info n without_info show ?thesis by (intro conjI)
qed

section \<open>Properties of the barcode worker\<close>

lemma worker_thread_keeps_others:
  "worker_thread barcode_bam barcode_read queue sink = Inr sink' \<Longrightarrow>
   filter (\<lambda>m. \<not> holds_bam_or_simplex m) sink'
     = filter (\<lambda>m. \<not> holds_bam_or_simplex m) sink
       @ filter (\<lambda>m. \<not> holds_bam_or_simplex m) queue"
proof (induction queue arbitrary: sink)
  case Nil
  then show ?case by simp
next
  case (Cons message queue)
  show ?case
  proof (cases message)
    case (SimplexReadPtr read)
    with Cons.prems obtain read' where
      "worker_thread barcode_bam barcode_read queue (sink @ [SimplexReadPtr read']) = Inr sink'"
      by (auto split: sum.splits)
    from Cons.IH [OF this] SimplexReadPtr show ?thesis
      by (simp add: holds_bam_or_simplex_def)
  next
    case (DuplexReadPtr d)
    with Cons.prems
    have "worker_thread barcode_bam barcode_read queue (sink @ [message]) = Inr sink'"
      by simp
    from Cons.IH [OF this] DuplexReadPtr show ?thesis
      by (simp add: holds_bam_or_simplex_def)
  next
    case (BamPtr read)
    with Cons.prems obtain read' where
      "worker_thread barcode_bam barcode_read queue (sink @ [BamPtr read']) = Inr sink'"
      by (auto split: sum.splits)
    from Cons.IH [OF this] BamPtr show ?thesis
      by (simp add: holds_bam_or_simplex_def)
  next
    case (CorrectionAlignmentsMsg a)
    with Cons.prems
    have "worker_thread barcode_bam barcode_read queue (sink @ [message]) = Inr sink'"
      by simp
    from Cons.IH [OF this] CorrectionAlignmentsMsg show ?thesis
      by (simp add: holds_bam_or_simplex_def)
  qed
qed

text \<open>
  C8.  A popped message that holds neither a BAM record nor a simplex read is sent to the
  sink as it is, and nothing else happens in that iteration; so every such message of the
  input queue is among the messages the sink has received once the worker ends.
\<close>

theorem worker_thread_forwards_unchanged:
  assumes "\<not> holds_bam_or_simplex message"
  shows "worker_thread barcode_bam barcode_read (message # queue) sink
           = worker_thread barcode_bam barcode_read queue (sink @ [message])
    \<and> (\<forall>before sink'.
          worker_thread barcode_bam barcode_read (before @ message # queue) sink = Inr sink'
          \<longrightarrow> message \<in> set sink')"
proof
  from assms
  show "worker_thread barcode_bam barcode_read (message # queue) sink
           = worker_thread barcode_bam barcode_read queue (sink @ [message])"
    by (cases message) (simp_all add: holds_bam_or_simplex_def)
next
  show "\<forall>before sink'.
          worker_thread barcode_bam barcode_read (before @ message # queue) sink = Inr sink'
          \<longrightarrow> message \<in> set sink'"
  proof (intro allI impI)
    fix before sink'
    assume "worker_thread barcode_bam barcode_read (before @ message # queue) sink = Inr sink'"
    from worker_thread_keeps_others [OF this] assms
    have "message \<in> set (filter (\<lambda>m. \<not> holds_bam_or_simplex m) sink')"
      by simp
    then show "message \<in> set sink'" by simp
  qed
qed

theorem worker_thread_forwards_unchanged_witness:
  "\<not> holds_bam_or_simplex (DuplexReadPtr ''duplex'' :: (string, string, nat, nat) Message)
   \<and> worker_thread Inr Inr
        [BamPtr ''bam'', DuplexReadPtr ''duplex'' :: (string, string, nat, nat) Message] []
      = Inr [BamPtr ''bam'', DuplexReadPtr ''duplex'']
   \<and> (DuplexReadPtr ''duplex'' :: (string, string, nat, nat) Message)
        \<in> set [BamPtr ''bam'', DuplexReadPtr ''duplex'']"
proof -
  have h: "\<not> holds_bam_or_simplex (DuplexReadPtr ''duplex'' :: (string, string, nat, nat) Message)"
    by (simp add: holds_bam_or_simplex_def)
  have run: "worker_thread Inr Inr
        ([BamPtr ''bam''] @ (DuplexReadPtr ''duplex'' :: (string, string, nat, nat) Message) # []) []
      = Inr [BamPtr ''bam'', DuplexReadPtr ''duplex'']"
    by simp
  from worker_thread_forwards_unchanged [OF h, of Inr Inr "[]" "[]"] run
  have "(DuplexReadPtr ''duplex'' :: (string, string, nat, nat) Message)
        \<in> set [BamPtr ''bam'', DuplexReadPtr ''duplex'']"
    by blast
  with h run show ?thesis by simp
qed

section \<open>Properties of the PAF writer\<close>

lemma write_alignments_lines:
  assumes "length (qnames alignments) \<le> length (overlaps alignments)"
    and "length (qnames alignments) \<le> length (cigars alignments)"
  shows "write_alignments serialize_to_paf alignments i out =
     Inr (out @ map (\<lambda>k. serialize_to_paf (qnames alignments ! k) (read_name alignments)
                        (overlaps alignments ! k) 0 0 60 (cigars alignments ! k))
                 [i ..< length (qnames alignments)])"
  using assms
proof (induction serialize_to_paf alignments i out rule: write_alignments.induct)
  case (1 serialize_to_paf alignments i out)
  show ?case
  proof (cases "i < length (qnames alignments)")
    case True
    with "1.prems" have inside: "i < length (overlaps alignments) \<and> i < length (cigars alignments)"
      by simp
    from True have "[i ..< length (qnames alignments)] = i # [Suc i ..< length (qnames alignments)]"
      by (simp add: upt_conv_Cons)
    with "1.IH" [OF True inside "1.prems"] True inside show ?thesis
      by (subst write_alignments.simps) simp
  next
    case False
    then show ?thesis by (subst write_alignments.simps) simp
  qed
qed

lemma write_alignments_length:
  "write_alignments serialize_to_paf alignments i out = Inr out' \<Longrightarrow>
   length out' = length out + (length (qnames alignments) - i)"
proof (induction serialize_to_paf alignments i out rule: write_alignments.induct)
  case (1 serialize_to_paf alignments i out)
  show ?case
  proof (cases "i < length (qnames alignments)")
    case True
    show ?thesis
    proof (cases "i < length (overlaps alignments) \<and> i < length (cigars alignments)")
      case inside: True
      from "1.prems" True inside
      have "write_alignments serialize_to_paf alignments (Suc i)
             (out @ [serialize_to_paf (qnames alignments ! i) (read_name alignments)
                       (overlaps alignments ! i) 0 0 60 (cigars alignments ! i)]) = Inr out'"
        by (subst (asm) write_alignments.simps) simp
      from "1.IH" [OF True inside this] True show ?thesis by simp
    next
      case False
      with "1.prems" True show ?thesis by (subst (asm) write_alignments.simps) simp
    qed
  next
    case False
    with "1.prems" show ?thesis by (subst (asm) write_alignments.simps) simp
  qed
qed

lemma input_thread_fn_run:
  "input_thread_fn serialize_to_paf queue io = Inr io' \<Longrightarrow>
   sent_to_sink io' = sent_to_sink io \<and> length (cout io') = length (cout io) + num_qnames queue"
proof (induction queue arbitrary: io)
  case Nil
  then show ?case by simp
next
  case (Cons message queue)
  show ?case
  proof (cases message)
    case (CorrectionAlignmentsMsg alignments)
    with Cons.prems obtain out where
      w: "write_alignments serialize_to_paf alignments 0 (cout io) = Inr out"
      and r: "input_thread_fn serialize_to_paf queue (io\<lparr>cout := out\<rparr>) = Inr io'"
      by (auto split: sum.splits)
    from write_alignments_length [OF w] Cons.IH [OF r] CorrectionAlignmentsMsg
    show ?thesis by simp
  next
    case (SimplexReadPtr read)
    with Cons.prems have "input_thread_fn serialize_to_paf queue io = Inr io'" by simp
    from Cons.IH [OF this] SimplexReadPtr show ?thesis by simp
  next
    case (DuplexReadPtr d)
    with Cons.prems have "input_thread_fn serialize_to_paf queue io = Inr io'" by simp
    from Cons.IH [OF this] DuplexReadPtr show ?thesis by simp
  next
    case (BamPtr b)
    with Cons.prems have "input_thread_fn serialize_to_paf queue io = Inr io'" by simp
    from Cons.IH [OF this] BamPtr show ?thesis by simp
  qed
qed

text \<open>
  C10.  A popped message that is not a \<open>CorrectionAlignments\<close> leaves standard output and
  the sink as they were (the loop continues with the next message).  A
  \<open>CorrectionAlignments\<close> message whose \<open>overlaps\<close> and \<open>cigars\<close> are at least as long as
  its \<open>qnames\<close> appends one serialized record per qname, in order, to standard output.
  Over a whole run nothing is ever sent to a sink, and the number of records written is
  the number of qnames of the \<open>CorrectionAlignments\<close> messages of the queue.
\<close>

theorem input_thread_fn_writes_only_alignments:
  "((\<forall>alignments. message \<noteq> CorrectionAlignmentsMsg alignments) \<longrightarrow>
      input_thread_fn serialize_to_paf (message # queue) io
        = input_thread_fn serialize_to_paf queue io)
   \<and> (length (qnames alignments) \<le> length (overlaps alignments)
        \<and> length (qnames alignments) \<le> length (cigars alignments) \<longrightarrow>
      input_thread_fn serialize_to_paf (CorrectionAlignmentsMsg alignments # queue) io
        = input_thread_fn serialize_to_paf queue
            (io\<lparr>cout := cout io @
                    map (\<lambda>k. serialize_to_paf (qnames alignments ! k) (read_name alignments)
                               (overlaps alignments ! k) 0 0 60 (cigars alignments ! k))
                        [0 ..< length (qnames alignments)]\<rparr>))
   \<and> (input_thread_fn serialize_to_paf queue io = Inr io' \<longrightarrow>
        sent_to_sink io' = sent_to_sink io
        \<and> length (cout io') = length (cout io) + num_qnames queue)"
proof (intro conjI impI)
  assume "\<forall>alignments. message \<noteq> CorrectionAlignmentsMsg alignments"
  then show "input_thread_fn serialize_to_paf (message # queue) io
        = input_thread_fn serialize_to_paf queue io"
    by (cases message) simp_all
next
  assume "length (qnames alignments) \<le> length (overlaps alignments)
        \<and> length (qnames alignments) \<le> length (cigars alignments)"
  then show "input_thread_fn serialize_to_paf (CorrectionAlignmentsMsg alignments # queue) io
        = input_thread_fn serialize_to_paf queue
            (io\<lparr>cout := cout io @
                    map (\<lambda>k. serialize_to_paf (qnames alignments ! k) (read_name alignments)
                               (overlaps alignments ! k) 0 0 60 (cigars alignments ! k))
                        [0 ..< length (qnames alignments)]\<rparr>)"
    by (simp add: write_alignments_lines)
next
  assume "input_thread_fn serialize_to_paf queue io = Inr io'"
  from input_thread_fn_run [OF this] show "sent_to_sink io' = sent_to_sink io" ..
next
  assume "input_thread_fn serialize_to_paf queue io = Inr io'"
  from input_thread_fn_run [OF this]
  show "length (cout io') = length (cout io) + num_qnames queue" ..
qed

theorem input_thread_fn_writes_only_alignments_witness:
  "(\<forall>alignments. (BamPtr ''bam'' :: (string, string, nat, string) Message)
        \<noteq> CorrectionAlignmentsMsg alignments)
   \<and> length (qnames example_alignments) \<le> length (overlaps example_alignments)
   \<and> length (qnames example_alignments) \<le> length (cigars example_alignments)
   \<and> input_thread_fn example_serialize
        [BamPtr ''bam'' :: (string, string, nat, string) Message,
         CorrectionAlignmentsMsg example_alignments]
        \<lparr>cout = [], sent_to_sink = []\<rparr>
      = Inr \<lparr>cout = [''q1|target|10M'', ''q2|target|4M1D''], sent_to_sink = []\<rparr>"
proof -
  let ?bam = "BamPtr ''bam'' :: (string, string, nat, string) Message"
  let ?io = "\<lparr>cout = [], sent_to_sink = []\<rparr> :: (string, string, nat, string) paf_writer_io"
  have h1: "\<forall>alignments. ?bam \<noteq> CorrectionAlignmentsMsg alignments" by simp
  have h2: "length (qnames example_alignments) \<le> length (overlaps example_alignments)
        \<and> length (qnames example_alignments) \<le> length (cigars example_alignments)"
    by (simp add: example_alignments_def)
  have seq01: "[0 ..< length (qnames example_alignments)] = [0, 1]"
    by (simp add: example_alignments_def upt_conv_Cons)
  from input_thread_fn_writes_only_alignments
    [where message = ?bam and queue = "[CorrectionAlignmentsMsg example_alignments]"
       and io = ?io and serialize_to_paf = example_serialize] h1
  have s1: "input_thread_fn example_serialize
              [?bam, CorrectionAlignmentsMsg example_alignments] ?io
            = input_thread_fn example_serialize [CorrectionAlignmentsMsg example_alignments] ?io"
    by blast
  from input_thread_fn_writes_only_alignments
    [where alignments = example_alignments and queue = "[]"
       and io = ?io and serialize_to_paf = example_serialize] h2
  have s2: "input_thread_fn example_serialize [CorrectionAlignmentsMsg example_alignments] ?io
            = input_thread_fn example_serialize []
                (?io\<lparr>cout := cout ?io @
                    map (\<lambda>k. example_serialize (qnames example_alignments ! k)
                               (read_name example_alignments)
                               (overlaps example_alignments ! k) 0 0 60
                               (cigars example_alignments ! k))
                        [0 ..< length (qnames example_alignments)]\<rparr>)"
    by blast
  have "input_thread_fn example_serialize
              [?bam, CorrectionAlignmentsMsg example_alignments] ?io
      = Inr \<lparr>cout = [''q1|target|10M'', ''q2|target|4M1D''], sent_to_sink = []\<rparr>"
    unfolding s1 s2 seq01
    by (simp add: example_alignments_def example_serialize_def)
  with h1 h2 show ?thesis by blast
qed

section \<open>Properties of get_tag\<close>

text \<open>
  C9, as stated, fails.  \<open>get_tag<std::string>\<close> on a tag that is present and holds an
  integer: \<open>bam_aux2Z\<close> returns null, and constructing the string from it throws, although
  the type is constructible from \<open>char*\<close>.
\<close>

theorem get_tag_throws_for_string_counterexample:
  "is_constructible_from_char_ptr string_type
   \<and> get_tag sam_htslib string_type [''NM'' \<mapsto> IntTag 3] ''NM''
       = Inl (std_exception ''basic_string: construction from null is not valid'')"
  by (simp add: get_tag_def sam_htslib_def string_type_def)

text \<open>
  C9, amended.  When the record has no tag of the given name, \<open>get_tag<T>\<close> returns the
  value-initialized \<open>T\<close> and does not throw, whatever \<open>T\<close> is: 0 for an integral type, 0
  for a floating-point type, the empty string for a type constructible from \<open>char*\<close>.
  With a tag that is present it never throws for an integral or a floating-point type;
  for a type of none of the three kinds it throws the \<open>std::runtime_error\<close> "Cannot
  get_tag for type ..."; and for a type constructible from \<open>char*\<close> it returns or throws
  what the construction of \<open>T\<close> from the pointer of \<open>bam_aux2Z\<close> returns or throws.
  So whenever \<open>get_tag<T>\<close> throws, the tag is present and \<open>T\<close> is neither integral nor
  floating-point.
\<close>

theorem get_tag_absent_returns_default:
  assumes "bam_aux_get hts record tagname = None"
  shows "get_tag hts T record tagname = Inr (value_initialized T)
    \<and> (is_integral T \<longrightarrow> value_initialized T = IntegralValue 0)
    \<and> (is_floating_point T \<and> \<not> is_integral T \<longrightarrow>
          value_initialized T = FloatingValue (Finite 0))
    \<and> (is_constructible_from_char_ptr T \<and> \<not> is_integral T \<and> \<not> is_floating_point T \<longrightarrow>
          value_initialized T = StringValue [])
    \<and> (\<forall>record' tagname' tag. bam_aux_get hts record' tagname' = Some tag \<longrightarrow>
          (is_integral T \<or> is_floating_point T \<longrightarrow>
             (\<exists>v. get_tag hts T record' tagname' = Inr v))
          \<and> (is_constructible_from_char_ptr T \<and> \<not> is_integral T \<and> \<not> is_floating_point T
               \<longrightarrow> get_tag hts T record' tagname'
                     = static_cast_char_ptr hts T (bam_aux2Z hts tag))
          \<and> (\<not> is_constructible_from_char_ptr T \<and> \<not> is_integral T \<and> \<not> is_floating_point T
               \<longrightarrow> get_tag hts T record' tagname'
                     = Inl (std_runtime_error (''Cannot get_tag for type '' @ type_name T))))
    \<and> (\<forall>record' tagname' e. get_tag hts T record' tagname' = Inl e \<longrightarrow>
          bam_aux_get hts record' tagname' \<noteq> None
          \<and> \<not> is_integral T \<and> \<not> is_floating_point T)"
proof (intro conjI allI impI)
  from assms show "get_tag hts T record tagname = Inr (value_initialized T)"
    by (simp add: get_tag_def)
next
  assume "is_integral T"
  then show "value_initialized T = IntegralValue 0" by (simp add: value_initialized_def)
next
  assume "is_floating_point T \<and> \<not> is_integral T"
  then show "value_initialized T = FloatingValue (Finite 0)"
    by (simp add: value_initialized_def)
next
  assume "is_constructible_from_char_ptr T \<and> \<not> is_integral T \<and> \<not> is_floating_point T"
  then show "value_initialized T = StringValue []" by (simp add: value_initialized_def)
next
  fix rec' tagname' tag
  assume "bam_aux_get hts rec' tagname' = Some tag"
    and "is_integral T \<or> is_floating_point T"
  then show "\<exists>v. get_tag hts T rec' tagname' = Inr v"
    by (auto simp add: get_tag_def)
next
  fix rec' tagname' tag
  assume "bam_aux_get hts rec' tagname' = Some tag"
    and "is_constructible_from_char_ptr T \<and> \<not> is_integral T \<and> \<not> is_floating_point T"
  then show "get_tag hts T rec' tagname' = static_cast_char_ptr hts T (bam_aux2Z hts tag)"
    by (simp add: get_tag_def)
next
  fix rec' tagname' tag
  assume "bam_aux_get hts rec' tagname' = Some tag"
    and "\<not> is_constructible_from_char_ptr T \<and> \<not> is_integral T \<and> \<not> is_floating_point T"
  then show "get_tag hts T rec' tagname'
               = Inl (std_runtime_error (''Cannot get_tag for type '' @ type_name T))"
    by (simp add: get_tag_def)
next
  fix rec' tagname' e
  assume "get_tag hts T rec' tagname' = Inl e"
  then show "bam_aux_get hts rec' tagname' \<noteq> None"
    by (auto simp add: get_tag_def split: option.splits)
next
  fix rec' tagname' e
  assume "get_tag hts T rec' tagname' = Inl e"
  then show "\<not> is_integral T"
    by (auto simp add: get_tag_def split: option.splits if_splits)
next
  fix rec' tagname' e
  assume "get_tag hts T rec' tagname' = Inl e"
  then show "\<not> is_floating_point T"
    by (auto simp add: get_tag_def split: option.splits if_splits)
qed

theorem get_tag_absent_returns_default_witness:
  "bam_aux_get sam_htslib [''NM'' \<mapsto> IntTag 3] ''ts'' = None
   \<and> is_integral int_type
   \<and> get_tag sam_htslib int_type [''NM'' \<mapsto> IntTag 3] ''ts'' = Inr (IntegralValue 0)
   \<and> is_constructible_from_char_ptr string_type \<and> \<not> is_integral string_type
   \<and> \<not> is_floating_point string_type
   \<and> get_tag sam_htslib string_type [''NM'' \<mapsto> IntTag 3] ''ts'' = Inr (StringValue [])
   \<and> get_tag sam_htslib vector_type [''NM'' \<mapsto> IntTag 3] ''ts'' = Inr ObjectValue
   \<and> bam_aux_get sam_htslib [''NM'' \<mapsto> IntTag 3] ''NM'' = Some (IntTag 3)
   \<and> get_tag sam_htslib int_type [''NM'' \<mapsto> IntTag 3] ''NM'' = Inr (IntegralValue 3)
   \<and> get_tag sam_htslib string_type [''NM'' \<mapsto> IntTag 3] ''NM''
        = Inl (std_exception ''basic_string: construction from null is not valid'')
   \<and> \<not> is_constructible_from_char_ptr vector_type \<and> \<not> is_integral vector_type
   \<and> \<not> is_floating_point vector_type
   \<and> get_tag sam_htslib vector_type [''NM'' \<mapsto> IntTag 3] ''NM''
        = Inl (std_runtime_error ''Cannot get_tag for type St6vectorIiSaIiEE'')"
proof -
  let ?rcd = "[''NM'' \<mapsto> IntTag 3]"
  have absent: "bam_aux_get sam_htslib ?rcd ''ts'' = None"
    by (simp add: sam_htslib_def)
  have present: "bam_aux_get sam_htslib ?rcd ''NM'' = Some (IntTag 3)"
    by (simp add: sam_htslib_def)
  have i: "is_integral int_type" by (simp add: int_type_def)
  have s: "is_constructible_from_char_ptr string_type \<and> \<not> is_integral string_type
           \<and> \<not> is_floating_point string_type"
    by (simp add: string_type_def)
  have v: "\<not> is_constructible_from_char_ptr vector_type \<and> \<not> is_integral vector_type
           \<and> \<not> is_floating_point vector_type"
    by (simp add: vector_type_def)
  note at_int = get_tag_absent_returns_default [OF absent, of int_type]
  note at_string = get_tag_absent_returns_default [OF absent, of string_type]
  note at_vector = get_tag_absent_returns_default [OF absent, of vector_type]
  from at_int [THEN conjunct1] at_int [THEN conjunct2, THEN conjunct1, THEN mp, OF i]
  have a: "get_tag sam_htslib int_type ?rcd ''ts'' = Inr (IntegralValue 0)"
    by simp
  from at_string [THEN conjunct1]
    at_string [THEN conjunct2, THEN conjunct2, THEN conjunct2, THEN conjunct1, THEN mp, OF s]
  have b: "get_tag sam_htslib string_type ?rcd ''ts'' = Inr (StringValue [])"
    by simp
  have "value_initialized vector_type = ObjectValue"
    by (simp add: value_initialized_def vector_type_def)
  with at_vector [THEN conjunct1]
  have c: "get_tag sam_htslib vector_type ?rcd ''ts'' = Inr ObjectValue"
    by simp
  have d: "get_tag sam_htslib int_type ?rcd ''NM'' = Inr (IntegralValue 3)"
    by (simp add: get_tag_def sam_htslib_def int_type_def)
  note with_tag = at_string [THEN conjunct2, THEN conjunct2, THEN conjunct2, THEN conjunct2,
      THEN conjunct1, THEN spec, THEN spec, THEN spec, THEN mp, OF present]
  from with_tag [THEN conjunct2, THEN conjunct1, THEN mp, OF s]
  have e: "get_tag sam_htslib string_type ?rcd ''NM''
        = Inl (std_exception ''basic_string: construction from null is not valid'')"
    by (simp add: sam_htslib_def)
  note with_tag' = at_vector [THEN conjunct2, THEN conjunct2, THEN conjunct2, THEN conjunct2,
      THEN conjunct1, THEN spec, THEN spec, THEN spec, THEN mp, OF present]
  from with_tag' [THEN conjunct2, THEN conjunct2, THEN mp, OF v]
  have f: "get_tag sam_htslib vector_type ?rcd ''NM''
        = Inl (std_runtime_error ''Cannot get_tag for type St6vectorIiSaIiEE'')"
    by (simp add: vector_type_def)
  from absent i a s [THEN conjunct1] s [THEN conjunct2, THEN conjunct1]
    s [THEN conjunct2, THEN conjunct2] b c present d e
    v [THEN conjunct1] v [THEN conjunct2, THEN conjunct1] v [THEN conjunct2, THEN conjunct2] f
  show ?thesis by (intro conjI)
qed

section \<open>Properties of the MemoryManager\<close>

lemma acquire_result:
  "acquire n m =
     (if n \<le> length (m_bases_locations m)
      then Inr (take n (m_bases_locations m),
                m\<lparr>m_bases_locations := drop n (m_bases_locations m)\<rparr>)
      else Inl (std_runtime_error ''No more pointers left!''))"
proof (induction n arbitrary: m)
  case 0
  then show ?case by simp
next
  case (Suc n)
  show ?case
  proof (cases "m_bases_locations m")
    case Nil
    then show ?thesis by (simp add: get_next_ptr_def)
  next
    case (Cons p ps)
    then show ?thesis by (simp add: get_next_ptr_def Suc.IH)
  qed
qed

lemma fresh_pool_size: "length (m_bases_locations (MemoryManager_new batch)) = 64"
  by (simp add: MemoryManager_new_def num_tensors_def)

lemma tensor_size_in_range:
  assumes "0 \<le> batch" and "batch \<le> 13530"
  shows "tensor_size batch = nat (5120 * 31 * batch)"
proof -
  from assms have lo: "0 \<le> 158720 * batch" and hi: "158720 * batch < 2 ^ 31" by simp_all
  from lo hi have "(158720 * batch + 2 ^ 31) mod 2 ^ 32 = 158720 * batch + 2 ^ 31"
    by (intro mod_pos_pos_trivial) simp_all
  then have w: "int32_of (158720 * batch) = 158720 * batch"
    by (simp add: int32_of_def)
  from lo hi have "(158720 * batch) mod 2 ^ 64 = 158720 * batch"
    by (intro mod_pos_pos_trivial) simp_all
  with w show ?thesis
    by (simp add: tensor_size_def size_t_of_int_def WS_def NR_def)
qed

lemma tensor_size_bound:
  assumes "0 \<le> batch" and "batch \<le> 13530"
  shows "tensor_size batch < 2 ^ 31"
proof -
  from assms have "158720 * batch < 2 ^ 31" by simp
  with assms have "nat (158720 * batch) < nat (2 ^ 31)" by (intro iffD2 [OF nat_less_eq_zless]) simp_all
  then show ?thesis using tensor_size_in_range [OF assms] by simp
qed

lemma fresh_pool_in_range:
  assumes "0 \<le> batch" and "batch \<le> 13530"
  shows "m_bases_len (MemoryManager_new batch) = 64 * tensor_size batch"
    and "m_bases_locations (MemoryManager_new batch)
           = map (\<lambda>i. i * tensor_size batch) [0 ..< 64]"
proof -
  note b = tensor_size_bound [OF assms]
  have small: "i * tensor_size batch < 2 ^ 64" if "i \<le> 64" for i
  proof -
    from that b have "i * tensor_size batch \<le> 64 * 2 ^ 31"
      by (intro mult_mono) simp_all
    also have "\<dots> < (2::nat) ^ 64" by simp
    finally show ?thesis .
  qed
  from small [of 64] show "m_bases_len (MemoryManager_new batch) = 64 * tensor_size batch"
    by (simp add: MemoryManager_new_def num_tensors_def mult.commute)
  have "map (\<lambda>i. (i * tensor_size batch) mod 2 ^ 64) [0 ..< 64]
          = map (\<lambda>i. i * tensor_size batch) [0 ..< 64]"
    by (rule map_cong) (use small in auto)
  then show "m_bases_locations (MemoryManager_new batch)
           = map (\<lambda>i. i * tensor_size batch) [0 ..< 64]"
    by (simp add: MemoryManager_new_def num_tensors_def)
qed

lemma fresh_pool_distinct:
  assumes "0 < batch" and "batch \<le> 13530"
  shows "distinct (m_bases_locations (MemoryManager_new batch))"
proof -
  from assms have "0 < tensor_size batch"
    using tensor_size_in_range [of batch] by simp
  then have "inj_on (\<lambda>i. i * tensor_size batch) (set [0 ..< 64])"
    by (simp add: inj_on_def)
  then show ?thesis
    using assms by (simp add: fresh_pool_in_range distinct_map)
qed


text \<open>
  C3, as stated, fails.  After 64 calls of \<open>get_next_ptr\<close> on a fresh pool no slab is free;
  the next call does not wait for one, it throws.
\<close>

theorem get_next_ptr_blocks_counterexample:
  "acquire 64 (MemoryManager_new 1)
     = Inr (m_bases_locations (MemoryManager_new 1),
            (MemoryManager_new 1)\<lparr>m_bases_locations := []\<rparr>)
   \<and> get_next_ptr ((MemoryManager_new 1)\<lparr>m_bases_locations := []\<rparr>)
       = Inl (std_runtime_error ''No more pointers left!'')
   \<and> acquire 65 (MemoryManager_new 1) = Inl (std_runtime_error ''No more pointers left!'')"
  by (simp add: acquire_result fresh_pool_size get_next_ptr_def)

text \<open>
  C3, amended.  Whatever the number of devices and threads in use, the pool is 64
  (8 times 8) slab pointers into one array: with \<open>tensor_size\<close> the product
  \<open>WS * NR * batch_size\<close> (5120 times 31 times the batch size, formed in \<open>int\<close> and converted
  to \<open>size_t\<close>), the array has \<open>tensor_size * 64\<close> elements and slab \<open>i\<close> begins at element
  \<open>i * tensor_size\<close>.  For a batch size from 0 to 13530, where the product does not
  overflow, \<open>tensor_size\<close> is 158720 times the batch size, the array has 64 times that many
  elements, the slabs lie \<open>tensor_size\<close> elements apart, and for a positive batch size they
  are distinct.  \<open>get_next_ptr\<close> throws exactly when no slab is free, and otherwise hands
  out the slab at the head of the free queue; \<open>return_ptr\<close> puts a slab at the back of the
  free queue.  On a fresh pool, \<open>n\<close> calls of \<open>get_next_ptr\<close> in a row hand out the first
  \<open>n\<close> slabs when \<open>n \<le> 64\<close> and throw when \<open>n > 64\<close>.
\<close>

theorem memory_manager_pool:
  "length (m_bases_locations (MemoryManager_new batch)) = 64
   \<and> tensor_size batch = size_t_of_int (int32_of (5120 * 31 * batch))
   \<and> m_bases_len (MemoryManager_new batch) = (tensor_size batch * 64) mod 2 ^ 64
   \<and> m_bases_locations (MemoryManager_new batch)
       = map (\<lambda>i. (i * tensor_size batch) mod 2 ^ 64) [0 ..< 64]
   \<and> (0 \<le> batch \<and> batch \<le> 13530 \<longrightarrow>
         tensor_size batch = nat (5120 * 31 * batch)
         \<and> m_bases_len (MemoryManager_new batch) = 64 * tensor_size batch
         \<and> m_bases_locations (MemoryManager_new batch)
             = map (\<lambda>i. i * tensor_size batch) [0 ..< 64]
         \<and> (0 < batch \<longrightarrow> distinct (m_bases_locations (MemoryManager_new batch))))
   \<and> ((\<exists>e. get_next_ptr m = Inl e) \<longleftrightarrow> m_bases_locations m = [])
   \<and> (m_bases_locations m = [] \<longrightarrow>
        get_next_ptr m = Inl (std_runtime_error ''No more pointers left!''))
   \<and> (\<forall>p ps. m_bases_locations m = p # ps \<longrightarrow>
        get_next_ptr m = Inr (p, m\<lparr>m_bases_locations := ps\<rparr>))
   \<and> return_ptr ptr m = m\<lparr>m_bases_locations := m_bases_locations m @ [ptr]\<rparr>
   \<and> acquire n (MemoryManager_new batch)
       = (if n \<le> 64
          then Inr (take n (m_bases_locations (MemoryManager_new batch)),
                    (MemoryManager_new batch)
                      \<lparr>m_bases_locations := drop n (m_bases_locations (MemoryManager_new batch))\<rparr>)
          else Inl (std_runtime_error ''No more pointers left!''))"
proof -
  have size: "tensor_size batch = size_t_of_int (int32_of (5120 * 31 * batch))"
    by (simp add: tensor_size_def WS_def NR_def)
  have len: "m_bases_len (MemoryManager_new batch) = (tensor_size batch * 64) mod 2 ^ 64"
    by (simp add: MemoryManager_new_def num_tensors_def)
  have locs: "m_bases_locations (MemoryManager_new batch)
       = map (\<lambda>i. (i * tensor_size batch) mod 2 ^ 64) [0 ..< 64]"
    by (simp add: MemoryManager_new_def num_tensors_def)
  have in_range: "0 \<le> batch \<and> batch \<le> 13530 \<longrightarrow>
         tensor_size batch = nat (5120 * 31 * batch)
         \<and> m_bases_len (MemoryManager_new batch) = 64 * tensor_size batch
         \<and> m_bases_locations (MemoryManager_new batch)
             = map (\<lambda>i. i * tensor_size batch) [0 ..< 64]
         \<and> (0 < batch \<longrightarrow> distinct (m_bases_locations (MemoryManager_new batch)))"
    using tensor_size_in_range [of batch] fresh_pool_in_range [of batch]
      fresh_pool_distinct [of batch]
    by blast
  have none: "(\<exists>e. get_next_ptr m = Inl e) \<longleftrightarrow> m_bases_locations m = []"
    by (simp add: get_next_ptr_def)
  have throws: "m_bases_locations m = [] \<longrightarrow>
        get_next_ptr m = Inl (std_runtime_error ''No more pointers left!'')"
    by (simp add: get_next_ptr_def)
  have head: "\<forall>p ps. m_bases_locations m = p # ps \<longrightarrow>
        get_next_ptr m = Inr (p, m\<lparr>m_bases_locations := ps\<rparr>)"
    by (simp add: get_next_ptr_def)
  have appended: "return_ptr ptr m = m\<lparr>m_bases_locations := m_bases_locations m @ [ptr]\<rparr>"
    by (simp add: return_ptr_def)
  have row: "acquire n (MemoryManager_new batch)
       = (if n \<le> 64
          then Inr (take n (m_bases_locations (MemoryManager_new batch)),
                    (MemoryManager_new batch)
                      \<lparr>m_bases_locations := drop n (m_bases_locations (MemoryManager_new batch))\<rparr>)
          else Inl (std_runtime_error ''No more pointers left!''))"
    by (simp add: acquire_result fresh_pool_size)
  from fresh_pool_size size len locs in_range none throws head appended row
  show ?thesis by (intro conjI)
qed

theorem memory_manager_pool_witness:
  "(0::int) \<le> 1 \<and> (1::int) \<le> 13530 \<and> (0::int) < 1
   \<and> tensor_size 1 = 158720
   \<and> m_bases_len (MemoryManager_new 1) = 10158080
   \<and> distinct (m_bases_locations (MemoryManager_new 1))
   \<and> m_bases_locations \<lparr>m_bases_len = 317440, m_bases_locations = []\<rparr> = []
   \<and> get_next_ptr \<lparr>m_bases_len = 317440, m_bases_locations = []\<rparr>
       = Inl (std_runtime_error ''No more pointers left!'')
   \<and> m_bases_locations \<lparr>m_bases_len = 317440, m_bases_locations = [0, 158720]\<rparr>
       = [0, 158720]
   \<and> get_next_ptr \<lparr>m_bases_len = 317440, m_bases_locations = [0, 158720]\<rparr>
       = Inr (0, \<lparr>m_bases_len = 317440, m_bases_locations = [158720]\<rparr>)
   \<and> return_ptr 0 \<lparr>m_bases_len = 317440, m_bases_locations = [158720]\<rparr>
       = \<lparr>m_bases_len = 317440, m_bases_locations = [158720, 0]\<rparr>
   \<and> acquire 2 (MemoryManager_new 1)
       = Inr ([0, 158720],
              (MemoryManager_new 1)
                \<lparr>m_bases_locations := drop 2 (m_bases_locations (MemoryManager_new 1))\<rparr>)"
proof -
  let ?empty = "\<lparr>m_bases_len = 317440, m_bases_locations = []\<rparr>"
  let ?two = "\<lparr>m_bases_len = 317440, m_bases_locations = [0, 158720]\<rparr>"
  let ?one = "\<lparr>m_bases_len = 317440, m_bases_locations = [158720]\<rparr>"
  have r: "(0::int) \<le> 1 \<and> (1::int) \<le> 13530" and p: "(0::int) < 1" by simp_all
  note fresh = memory_manager_pool [of 1, THEN conjunct2, THEN conjunct2, THEN conjunct2,
      THEN conjunct2, THEN conjunct1, THEN mp, OF r]
  from fresh have ts: "tensor_size 1 = 158720" by simp
  from fresh ts have len: "m_bases_len (MemoryManager_new 1) = 10158080" by simp
  from fresh p have dist: "distinct (m_bases_locations (MemoryManager_new 1))" by blast
  from fresh ts have locs: "m_bases_locations (MemoryManager_new 1)
        = map (\<lambda>i. i * 158720) [0 ..< 64]"
    by simp
  have e: "m_bases_locations ?empty = []" and t: "m_bases_locations ?two = [0, 158720]"
    by simp_all
  note thrown = memory_manager_pool [of _ ?empty, THEN conjunct2, THEN conjunct2,
      THEN conjunct2, THEN conjunct2, THEN conjunct2, THEN conjunct2, THEN conjunct1,
      THEN mp, OF e]
  from memory_manager_pool [of _ ?two, THEN conjunct2, THEN conjunct2,
      THEN conjunct2, THEN conjunct2, THEN conjunct2, THEN conjunct2, THEN conjunct2,
      THEN conjunct1, THEN spec, THEN spec, THEN mp, OF t]
  have handed: "get_next_ptr ?two = Inr (0, ?one)" by simp
  from memory_manager_pool [of _ ?one 0, THEN conjunct2, THEN conjunct2,
      THEN conjunct2, THEN conjunct2, THEN conjunct2, THEN conjunct2, THEN conjunct2,
      THEN conjunct2, THEN conjunct1]
  have appended: "return_ptr 0 ?one = \<lparr>m_bases_len = 317440, m_bases_locations = [158720, 0]\<rparr>"
    by simp
  have first_two: "take 2 (map (\<lambda>i. i * 158720) [0 ..< 64]) = [0, 158720::nat]"
    by (simp add: take_map numeral_2_eq_2 upt_conv_Cons)
  from memory_manager_pool [of 1 _ _ 2, THEN conjunct2, THEN conjunct2,
      THEN conjunct2, THEN conjunct2, THEN conjunct2, THEN conjunct2, THEN conjunct2,
      THEN conjunct2, THEN conjunct2]
  have "acquire 2 (MemoryManager_new 1)
       = Inr (take 2 (m_bases_locations (MemoryManager_new 1)),
              (MemoryManager_new 1)
                \<lparr>m_bases_locations := drop 2 (m_bases_locations (MemoryManager_new 1))\<rparr>)"
    by simp
  then have row: "acquire 2 (MemoryManager_new 1)
       = Inr ([0, 158720],
              (MemoryManager_new 1)
                \<lparr>m_bases_locations := drop 2 (m_bases_locations (MemoryManager_new 1))\<rparr>)"
    unfolding locs first_two .
  from r [THEN conjunct1] r [THEN conjunct2] p ts len dist e thrown t handed appended row
  show ?thesis by (intro conjI)
qed

section \<open>Properties of setting up the pipeline\<close>

lemma push_runners_all:
  "push_runners n (Inr runner) runners = Inr (runners @ replicate n runner)"
  by (induction n arbitrary: runners) (simp_all add: replicate_app_Cons_same)

lemma cuda_runners_succeed:
  assumes "\<forall>d \<in> set devices.
             create_caller p (model_path a) d (chunk_size a) batch = None
             \<and> (\<exists>runner. new_runner p (model_path a) d (chunk_size a) batch = Inr runner)"
  shows "\<exists>runners'. cuda_runners p a batch devices runners = Inr runners'"
  using assms
proof (induction devices arbitrary: runners)
  case Nil
  then show ?case by simp
next
  case (Cons d devices)
  then obtain runner where
    c: "create_caller p (model_path a) d (chunk_size a) batch = None"
    and r: "new_runner p (model_path a) d (chunk_size a) batch = Inr runner"
    by auto
  from Cons.prems have rest: "\<forall>d \<in> set devices.
             create_caller p (model_path a) d (chunk_size a) batch = None
             \<and> (\<exists>runner. new_runner p (model_path a) d (chunk_size a) batch = Inr runner)"
    by simp
  from Cons.IH [OF rest] c r show ?case
    by (simp add: push_runners_all)
qed

lemma setup_impl_built:
  assumes "setup_impl b p a = Inr built"
  shows "\<exists>n runners. create_runners b p a = Inr (basecaller_batch_size built, n, runners)"
proof (cases "create_runners b p a")
  case (Inl e)
  with assms show ?thesis by (simp add: setup_impl_def)
next
  case (Inr created)
  obtain batch n runners where c: "created = (batch, n, runners)"
    by (cases created) auto
  show ?thesis
  proof (cases runners)
    case Nil
    with Inr c assms show ?thesis by (simp add: setup_impl_def)
  next
    case (Cons front rest)
    with Inr c assms have "basecaller_batch_size built = batch"
      by (auto simp add: setup_impl_def Let_def split: if_splits option.splits)
    with Inr c show ?thesis by simp
  qed
qed

lemma cpu_platform_create_runners:
  assumes "device a = ''cpu''" and "batch_size a = 0"
  shows "create_runners b cpu_platform a
    = Inr (8, 1, replicate (num_runners a)
                   \<lparr>runner_model_stride = 5, runner_chunk_size = (chunk_size a div 5) * 5\<rparr>)"
  using assms by (simp add: create_runners_def cpu_platform_def push_runners_all)

lemma cpu_options_arguments:
  assumes "opt_device opts = ''cpu''" and "opt_batchsize opts = 0"
    and "opt_chunksize opts = 10000" and "opt_overlap opts = 500"
    and "opt_modified_bases opts = []"
  shows "device (setup_arguments 2 gm opts) = ''cpu''"
    and "batch_size (setup_arguments 2 gm opts) = 0"
    and "chunk_size (setup_arguments 2 gm opts) = 10000"
    and "overlap (setup_arguments 2 gm opts) = 500"
    and "num_runners (setup_arguments 2 gm opts) = 2"
    and "remora_models (setup_arguments 2 gm opts) = opt_modified_bases_models opts"
    and "ref (setup_arguments 2 gm opts) = opt_ref opts"
    and "emit_fastq (setup_arguments 2 gm opts) = opt_emit_fastq opts"
  using assms by (simp_all add: setup_arguments_def size_t_of_int_def)

lemma cpu_options_runners:
  assumes "opt_device opts = ''cpu''" and "opt_batchsize opts = 0"
    and "opt_chunksize opts = 10000" and "opt_overlap opts = 500"
    and "opt_modified_bases opts = []"
  shows "create_runners b cpu_platform (setup_arguments 2 gm opts)
   = Inr (8, 1, [\<lparr>runner_model_stride = 5, runner_chunk_size = 10000\<rparr>,
                 \<lparr>runner_model_stride = 5, runner_chunk_size = 10000\<rparr>])"
proof -
  have twice: "\<And>x::Runner. replicate 2 x = [x, x]" by (simp add: numeral_2_eq_2)
  show ?thesis
    by (simp add: cpu_platform_create_runners cpu_options_arguments [OF assms] twice)
qed

lemma fastq_options_fields:
  "opt_device fastq_options = ''cpu''" "opt_batchsize fastq_options = 0"
  "opt_chunksize fastq_options = 10000" "opt_overlap fastq_options = 500"
  "opt_modified_bases fastq_options = []"
  by (simp_all add: fastq_options_def)

lemma modbase_fastq_options_fields:
  "opt_device modbase_fastq_options = ''cpu''" "opt_batchsize modbase_fastq_options = 0"
  "opt_chunksize modbase_fastq_options = 10000" "opt_overlap modbase_fastq_options = 500"
  "opt_modified_bases modbase_fastq_options = []"
  by (simp_all add: modbase_fastq_options_def fastq_options_def)

lemma ref_fastq_options_fields:
  "opt_device ref_fastq_options = ''cpu''" "opt_batchsize ref_fastq_options = 0"
  "opt_chunksize ref_fastq_options = 10000" "opt_overlap ref_fastq_options = 500"
  "opt_modified_bases ref_fastq_options = []"
  by (simp_all add: ref_fastq_options_def fastq_options_def)

lemma fastq_options_setup:
  "setup_impl release_build cpu_platform (setup_arguments 2 gm fastq_options)
      = Inr \<lparr>basecaller_runners = [\<lparr>runner_model_stride = 5, runner_chunk_size = 10000\<rparr>,
                                    \<lparr>runner_model_stride = 5, runner_chunk_size = 10000\<rparr>],
              basecaller_batch_size = 8,
              basecaller_chunk_size = 10000, basecaller_overlap = 500,
              basecaller_model_stride = 5, pipeline_num_devices = 1,
              pipeline_remora_models = [], pipeline_ref = [], pipeline_emit_fastq = True\<rparr>"
proof -
  note a0 = cpu_options_arguments [OF fastq_options_fields, of gm]
  have rp: "\<And>built. run_pipeline cpu_platform built = None" by (simp add: cpu_platform_def)
  have nd: "ndebug release_build" by (simp add: release_build_def)
  have v0: "remora_models (setup_arguments 2 gm fastq_options) = []"
    "ref (setup_arguments 2 gm fastq_options) = []"
    "emit_fastq (setup_arguments 2 gm fastq_options)"
    unfolding a0 by (simp_all add: fastq_options_def)
  show ?thesis
    unfolding setup_impl_def cpu_options_runners [OF fastq_options_fields]
    by (simp add: a0(3,4) v0 rp nd)
qed

text \<open>
  C7.  With \<open>batch_size = 0\<close>: on the device "cpu" the batch size that comes out of the
  device branch is \<open>std::thread::hardware_concurrency()\<close>; in a Metal build it is
  \<open>utils::auto_gpu_batch_size()\<close>, in a CUDA build
  \<open>utils::auto_gpu_batch_size(model_path, devices)\<close> for the devices parsed from the device
  string.  The branch does return when the constructors it calls succeed, and a pipeline
  that \<open>setup\<close> builds has this batch size for its basecaller node.
\<close>

theorem auto_batch_size:
  assumes "batch_size a = 0"
  shows "(device a = ''cpu'' \<longrightarrow>
           (\<forall>batch n runners. create_runners b p a = Inr (batch, n, runners) \<longrightarrow>
              batch = hardware_concurrency p)
           \<and> (\<forall>runner. new_runner p (model_path a) (device a) (chunk_size a)
                          (hardware_concurrency p) = Inr runner \<longrightarrow>
                create_runners b p a
                  = Inr (hardware_concurrency p, 1, replicate (num_runners a) runner)))
    \<and> (device a = ''metal'' \<and> gpu b = APPLE_GPU_BUILD \<longrightarrow>
           (\<forall>batch n runners. create_runners b p a = Inr (batch, n, runners) \<longrightarrow>
              batch = auto_gpu_batch_size_metal p)
           \<and> (\<forall>runner. create_caller p (model_path a) (device a) (chunk_size a)
                          (auto_gpu_batch_size_metal p) = None
                        \<and> new_runner p (model_path a) (device a) (chunk_size a)
                          (auto_gpu_batch_size_metal p) = Inr runner \<longrightarrow>
                create_runners b p a
                  = Inr (auto_gpu_batch_size_metal p, 1, replicate (num_runners a) runner)))
    \<and> (device a \<noteq> ''cpu'' \<and> gpu b = CUDA_GPU_BUILD \<longrightarrow>
           (\<forall>batch n runners. create_runners b p a = Inr (batch, n, runners) \<longrightarrow>
              (\<exists>devices. parse_cuda_device_string p (device a) = Inr devices
                 \<and> batch = auto_gpu_batch_size p (model_path a) devices))
           \<and> (\<forall>devices. parse_cuda_device_string p (device a) = Inr devices
                  \<and> devices \<noteq> []
                  \<and> (\<forall>d \<in> set devices.
                        create_caller p (model_path a) d (chunk_size a)
                          (auto_gpu_batch_size p (model_path a) devices) = None
                        \<and> (\<exists>runner. new_runner p (model_path a) d (chunk_size a)
                              (auto_gpu_batch_size p (model_path a) devices) = Inr runner))
                \<longrightarrow> (\<exists>runners. create_runners b p a
                       = Inr (auto_gpu_batch_size p (model_path a) devices,
                              length devices, runners))))
    \<and> (\<forall>built. setup_impl b p a = Inr built \<longrightarrow>
           (\<exists>n runners. create_runners b p a = Inr (basecaller_batch_size built, n, runners)))"
proof (intro conjI impI allI)
  fix batch n runners
  assume "device a = ''cpu''" "create_runners b p a = Inr (batch, n, runners)"
  with assms show "batch = hardware_concurrency p"
    by (auto simp add: create_runners_def Let_def split: sum.splits)
next
  fix runner
  assume "device a = ''cpu''"
    "new_runner p (model_path a) (device a) (chunk_size a) (hardware_concurrency p) = Inr runner"
  with assms show "create_runners b p a
                  = Inr (hardware_concurrency p, 1, replicate (num_runners a) runner)"
    by (simp add: create_runners_def Let_def push_runners_all)
next
  fix batch n runners
  assume "device a = ''metal'' \<and> gpu b = APPLE_GPU_BUILD"
    "create_runners b p a = Inr (batch, n, runners)"
  with assms show "batch = auto_gpu_batch_size_metal p"
    by (auto simp add: create_runners_def Let_def split: sum.splits option.splits)
next
  fix runner
  assume "device a = ''metal'' \<and> gpu b = APPLE_GPU_BUILD"
    "create_caller p (model_path a) (device a) (chunk_size a)
        (auto_gpu_batch_size_metal p) = None
     \<and> new_runner p (model_path a) (device a) (chunk_size a)
        (auto_gpu_batch_size_metal p) = Inr runner"
  with assms show "create_runners b p a
                  = Inr (auto_gpu_batch_size_metal p, 1, replicate (num_runners a) runner)"
    by (simp add: create_runners_def Let_def push_runners_all)
next
  fix batch n runners
  assume "device a \<noteq> ''cpu'' \<and> gpu b = CUDA_GPU_BUILD"
    "create_runners b p a = Inr (batch, n, runners)"
  with assms show "\<exists>devices. parse_cuda_device_string p (device a) = Inr devices
                 \<and> batch = auto_gpu_batch_size p (model_path a) devices"
    by (auto simp add: create_runners_def Let_def split: sum.splits if_splits)
next
  fix devices
  assume g: "device a \<noteq> ''cpu'' \<and> gpu b = CUDA_GPU_BUILD"
    and d: "parse_cuda_device_string p (device a) = Inr devices
                  \<and> devices \<noteq> []
                  \<and> (\<forall>d \<in> set devices.
                        create_caller p (model_path a) d (chunk_size a)
                          (auto_gpu_batch_size p (model_path a) devices) = None
                        \<and> (\<exists>runner. new_runner p (model_path a) d (chunk_size a)
                              (auto_gpu_batch_size p (model_path a) devices) = Inr runner))"
  from d cuda_runners_succeed [of devices p a "auto_gpu_batch_size p (model_path a) devices" "[]"]
  obtain runners where
    "cuda_runners p a (auto_gpu_batch_size p (model_path a) devices) devices [] = Inr runners"
    by blast
  with assms g d
  have "create_runners b p a
          = Inr (auto_gpu_batch_size p (model_path a) devices, length devices, runners)"
    by (simp add: create_runners_def Let_def)
  then show "\<exists>runners. create_runners b p a
                       = Inr (auto_gpu_batch_size p (model_path a) devices,
                              length devices, runners)" ..
next
  fix built
  assume "setup_impl b p a = Inr built"
  then show "\<exists>n runners. create_runners b p a = Inr (basecaller_batch_size built, n, runners)"
    by (rule setup_impl_built)
qed

theorem auto_batch_size_witness:
  "batch_size fastq_args = 0 \<and> device fastq_args = ''cpu''
   \<and> create_runners release_build cpu_platform fastq_args
       = Inr (8, 1, [\<lparr>runner_model_stride = 5, runner_chunk_size = 10000\<rparr>,
                     \<lparr>runner_model_stride = 5, runner_chunk_size = 10000\<rparr>])
   \<and> (\<exists>built. setup_impl release_build cpu_platform fastq_args = Inr built
         \<and> basecaller_batch_size built = hardware_concurrency cpu_platform
         \<and> hardware_concurrency cpu_platform = 8)
   \<and> batch_size (fastq_args\<lparr>device := ''metal''\<rparr>) = 0
   \<and> device (fastq_args\<lparr>device := ''metal''\<rparr>) = ''metal'' \<and> gpu metal_build = APPLE_GPU_BUILD
   \<and> create_runners metal_build cpu_platform (fastq_args\<lparr>device := ''metal''\<rparr>)
       = Inr (96, 1, [\<lparr>runner_model_stride = 5, runner_chunk_size = 10000\<rparr>,
                      \<lparr>runner_model_stride = 5, runner_chunk_size = 10000\<rparr>])
   \<and> batch_size (fastq_args\<lparr>device := ''cuda:all''\<rparr>) = 0
   \<and> device (fastq_args\<lparr>device := ''cuda:all''\<rparr>) \<noteq> ''cpu'' \<and> gpu cuda_build = CUDA_GPU_BUILD
   \<and> (\<exists>runners. create_runners cuda_build cpu_platform (fastq_args\<lparr>device := ''cuda:all''\<rparr>)
                   = Inr (128, 2, runners))"
proof -
  let ?r = "\<lparr>runner_model_stride = 5, runner_chunk_size = 10000\<rparr>"
  let ?m = "fastq_args\<lparr>device := ''metal''\<rparr>"
  let ?c = "fastq_args\<lparr>device := ''cuda:all''\<rparr>"
  let ?devices = "[''cuda:0'', ''cuda:1'']"
  have twice: "\<And>x::Runner. replicate 2 x = [x, x]" by (simp add: numeral_2_eq_2)
  note a = cpu_options_arguments [OF fastq_options_fields, of model_of_modification,
      folded fastq_args_def]
  have h: "batch_size fastq_args = 0" and d: "device fastq_args = ''cpu''"
    by (simp_all add: a)
  have hc: "hardware_concurrency cpu_platform = 8" by (simp add: cpu_platform_def)
  have r: "new_runner cpu_platform (model_path fastq_args) (device fastq_args)
             (chunk_size fastq_args) (hardware_concurrency cpu_platform) = Inr ?r"
    by (simp add: a cpu_platform_def)
  note on_cpu = auto_batch_size [OF h, of release_build cpu_platform,
      THEN conjunct1, THEN mp, OF d, THEN conjunct2, THEN spec, THEN mp, OF r]
  have cpu: "create_runners release_build cpu_platform fastq_args = Inr (8, 1, [?r, ?r])"
    unfolding on_cpu by (simp add: a hc twice)
  obtain built where built: "setup_impl release_build cpu_platform fastq_args = Inr built"
    unfolding fastq_args_def fastq_options_setup by blast
  from auto_batch_size [OF h, of release_build cpu_platform,
      THEN conjunct2, THEN conjunct2, THEN conjunct2, THEN spec, THEN mp, OF built]
  obtain n runners where
    "create_runners release_build cpu_platform fastq_args
       = Inr (basecaller_batch_size built, n, runners)"
    by blast
  from auto_batch_size [OF h, of release_build cpu_platform,
      THEN conjunct1, THEN mp, OF d, THEN conjunct1, THEN spec, THEN spec, THEN spec,
      THEN mp, OF this]
  have "basecaller_batch_size built = hardware_concurrency cpu_platform" .
  with built hc
  have node: "\<exists>built. setup_impl release_build cpu_platform fastq_args = Inr built
         \<and> basecaller_batch_size built = hardware_concurrency cpu_platform
         \<and> hardware_concurrency cpu_platform = 8"
    by blast
  have hm: "batch_size ?m = 0" using h by simp
  have dm: "device ?m = ''metal'' \<and> gpu metal_build = APPLE_GPU_BUILD"
    by (simp add: metal_build_def)
  have rm: "create_caller cpu_platform (model_path ?m) (device ?m) (chunk_size ?m)
              (auto_gpu_batch_size_metal cpu_platform) = None
            \<and> new_runner cpu_platform (model_path ?m) (device ?m) (chunk_size ?m)
              (auto_gpu_batch_size_metal cpu_platform) = Inr ?r"
    by (simp add: a cpu_platform_def)
  note on_metal = auto_batch_size [OF hm, of metal_build cpu_platform,
      THEN conjunct2, THEN conjunct1, THEN mp, OF dm, THEN conjunct2, THEN spec, THEN mp, OF rm]
  have metal: "create_runners metal_build cpu_platform ?m = Inr (96, 1, [?r, ?r])"
    unfolding on_metal by (simp add: a twice cpu_platform_def)
  have h': "batch_size ?c = 0" using h by simp
  have d': "device ?c \<noteq> ''cpu'' \<and> gpu cuda_build = CUDA_GPU_BUILD"
    by (simp add: cuda_build_def)
  have parse: "parse_cuda_device_string cpu_platform (device ?c) = Inr ?devices"
    by (simp add: cpu_platform_def)
  have callers: "\<forall>d \<in> set ?devices.
          create_caller cpu_platform (model_path ?c) d (chunk_size ?c)
            (auto_gpu_batch_size cpu_platform (model_path ?c) ?devices) = None
          \<and> (\<exists>runner. new_runner cpu_platform (model_path ?c) d (chunk_size ?c)
                (auto_gpu_batch_size cpu_platform (model_path ?c) ?devices) = Inr runner)"
    by (simp add: cpu_platform_def)
  from parse callers
  have devs: "parse_cuda_device_string cpu_platform (device ?c) = Inr ?devices
     \<and> ?devices \<noteq> []
     \<and> (\<forall>d \<in> set ?devices.
          create_caller cpu_platform (model_path ?c) d (chunk_size ?c)
            (auto_gpu_batch_size cpu_platform (model_path ?c) ?devices) = None
          \<and> (\<exists>runner. new_runner cpu_platform (model_path ?c) d (chunk_size ?c)
                (auto_gpu_batch_size cpu_platform (model_path ?c) ?devices) = Inr runner))"
    by blast
  have auto: "auto_gpu_batch_size cpu_platform (model_path ?c) ?devices = 128"
    by (simp add: cpu_platform_def)
  note on_cuda = auto_batch_size [OF h', of cuda_build cpu_platform,
      THEN conjunct2, THEN conjunct2, THEN conjunct1, THEN mp, OF d',
      THEN conjunct2, THEN spec, THEN mp, OF devs]
  with auto have cuda: "\<exists>runners. create_runners cuda_build cpu_platform ?c = Inr (128, 2, runners)"
    by (simp add: numeral_2_eq_2)
  from h d cpu node hm dm [THEN conjunct1] dm [THEN conjunct2] metal
    h' d' [THEN conjunct1] d' [THEN conjunct2] cuda
  show ?thesis by (intro conjI)
qed

text \<open>
  What the option checks do when they are reached.  If \<open>setup\<close> is called with
  modified-base models and FASTQ output, or with a reference and FASTQ output, it never
  returns normally; if the device branch has built its runners (and their strides are
  not zero), the exception is the \<open>std::runtime_error\<close> of the option check.
  \<open>basecaller\<close> returns 1 when \<open>setup\<close> throws an exception, and exits with 1 when
  parsing fails, when a modification is not supported and when both \<open>--modified-bases\<close>
  and \<open>--modified-bases-models\<close> are given; it returns 0 when \<open>setup\<close> returns, and only
  then.
\<close>

lemma incompatible_options_rejected:
  assumes "(remora_models a \<noteq> [] \<or> ref a \<noteq> []) \<and> emit_fastq a"
  shows "(\<exists>e. setup_impl b p a = Inl e)
    \<and> (\<forall>batch n front rest.
          create_runners b p a = Inr (batch, n, front # rest)
          \<and> runner_model_stride front \<noteq> 0
          \<and> (ndebug b \<or> list_all (\<lambda>runner. runner_model_stride runner = runner_model_stride front
                                    \<and> runner_chunk_size runner = runner_chunk_size front)
                            (front # rest))
          \<longrightarrow> setup_impl b p a
                = Inl (std_runtime_error
                        (if remora_models a \<noteq> []
                         then ''Modified base models cannot be used with FASTQ output''
                         else ''Alignment to reference can be used with FASTQ output.'')))
    \<and> (\<forall>opts. setup_arguments nr gm opts = a
          \<and> \<not> (opt_modified_bases opts \<noteq> [] \<and> opt_modified_bases_models opts \<noteq> [])
          \<longrightarrow> basecaller b p nr gm (parsed opts) \<noteq> Exit 0
              \<and> (\<forall>e. setup_impl b p a = Inl e \<and> is_std_exception e
                    \<longrightarrow> basecaller b p nr gm (parsed opts) = Exit 1))
    \<and> basecaller b p nr gm (parse_exception what) = Exit 1
    \<and> basecaller b p nr gm (unsupported_modification v) = Exit 1
    \<and> (\<forall>opts. opt_modified_bases opts \<noteq> [] \<and> opt_modified_bases_models opts \<noteq> []
          \<longrightarrow> basecaller b p nr gm (parsed opts) = Exit 1)
    \<and> (\<forall>outcome. basecaller b p nr gm outcome = Exit 0 \<longleftrightarrow>
          (\<exists>opts built. outcome = parsed opts
             \<and> \<not> (opt_modified_bases opts \<noteq> [] \<and> opt_modified_bases_models opts \<noteq> [])
             \<and> setup_impl b p (setup_arguments nr gm opts) = Inr built))"
proof -
  have never: "\<exists>e. setup_impl b p a = Inl e"
  proof (cases "create_runners b p a")
    case (Inl e)
    then show ?thesis by (simp add: setup_impl_def)
  next
    case (Inr created)
    obtain batch n runners where c: "created = (batch, n, runners)"
      by (cases created) auto
    show ?thesis
    proof (cases runners)
      case Nil
      with Inr c show ?thesis by (simp add: setup_impl_def)
    next
      case (Cons front rest)
      with Inr c assms show ?thesis by (auto simp add: setup_impl_def Let_def)
    qed
  qed
  have checks: "\<forall>batch n front rest.
          create_runners b p a = Inr (batch, n, front # rest)
          \<and> runner_model_stride front \<noteq> 0
          \<and> (ndebug b \<or> list_all (\<lambda>runner. runner_model_stride runner = runner_model_stride front
                                    \<and> runner_chunk_size runner = runner_chunk_size front)
                            (front # rest))
          \<longrightarrow> setup_impl b p a
                = Inl (std_runtime_error
                        (if remora_models a \<noteq> []
                         then ''Modified base models cannot be used with FASTQ output''
                         else ''Alignment to reference can be used with FASTQ output.''))"
  proof (intro allI impI)
    fix batch n front rest
    assume "create_runners b p a = Inr (batch, n, front # rest)
          \<and> runner_model_stride front \<noteq> 0
          \<and> (ndebug b \<or> list_all (\<lambda>runner. runner_model_stride runner = runner_model_stride front
                                    \<and> runner_chunk_size runner = runner_chunk_size front)
                            (front # rest))"
    with assms show "setup_impl b p a
                = Inl (std_runtime_error
                        (if remora_models a \<noteq> []
                         then ''Modified base models cannot be used with FASTQ output''
                         else ''Alignment to reference can be used with FASTQ output.''))"
      by (simp add: setup_impl_def Let_def)
  qed
  have codes: "\<forall>opts. setup_arguments nr gm opts = a
          \<and> \<not> (opt_modified_bases opts \<noteq> [] \<and> opt_modified_bases_models opts \<noteq> [])
          \<longrightarrow> basecaller b p nr gm (parsed opts) \<noteq> Exit 0
              \<and> (\<forall>e. setup_impl b p a = Inl e \<and> is_std_exception e
                    \<longrightarrow> basecaller b p nr gm (parsed opts) = Exit 1)"
  proof (intro allI impI)
    fix opts
    assume h: "setup_arguments nr gm opts = a
          \<and> \<not> (opt_modified_bases opts \<noteq> [] \<and> opt_modified_bases_models opts \<noteq> [])"
    from never obtain e0 where e0: "setup_impl b p a = Inl e0" ..
    from h e0 have "basecaller b p nr gm (parsed opts)
        = (if is_std_exception e0 then Exit 1
           else if e0 = assertion_failed then Abort else Unspecified)"
      by (auto simp add: basecaller_def)
    with e0 show "basecaller b p nr gm (parsed opts) \<noteq> Exit 0
              \<and> (\<forall>e. setup_impl b p a = Inl e \<and> is_std_exception e
                    \<longrightarrow> basecaller b p nr gm (parsed opts) = Exit 1)"
      by auto
  qed
  have p1: "basecaller b p nr gm (parse_exception what) = Exit 1"
    by (simp add: basecaller_def)
  have p2: "basecaller b p nr gm (unsupported_modification v) = Exit 1"
    by (simp add: basecaller_def EXIT_FAILURE_def)
  have p3: "\<forall>opts. opt_modified_bases opts \<noteq> [] \<and> opt_modified_bases_models opts \<noteq> []
          \<longrightarrow> basecaller b p nr gm (parsed opts) = Exit 1"
    by (simp add: basecaller_def EXIT_FAILURE_def)
  have zero: "\<forall>outcome. basecaller b p nr gm outcome = Exit 0 \<longleftrightarrow>
          (\<exists>opts built. outcome = parsed opts
             \<and> \<not> (opt_modified_bases opts \<noteq> [] \<and> opt_modified_bases_models opts \<noteq> [])
             \<and> setup_impl b p (setup_arguments nr gm opts) = Inr built)"
  proof
    fix outcome
    show "basecaller b p nr gm outcome = Exit 0 \<longleftrightarrow>
          (\<exists>opts built. outcome = parsed opts
             \<and> \<not> (opt_modified_bases opts \<noteq> [] \<and> opt_modified_bases_models opts \<noteq> [])
             \<and> setup_impl b p (setup_arguments nr gm opts) = Inr built)"
    proof (cases outcome)
      case (parse_exception what)
      then show ?thesis by (simp add: basecaller_def)
    next
      case (unsupported_modification v)
      then show ?thesis by (simp add: basecaller_def EXIT_FAILURE_def)
    next
      case (parsed opts)
      show ?thesis
      proof (cases "setup_impl b p (setup_arguments nr gm opts)")
        case (Inl e)
        with parsed show ?thesis by (simp add: basecaller_def EXIT_FAILURE_def)
      next
        case (Inr built)
        with parsed show ?thesis by (simp add: basecaller_def EXIT_FAILURE_def)
      qed
    qed
  qed
  from never checks codes p1 p2 p3 zero show ?thesis by blast
qed


lemma incompatible_options_rejected_on_cpu:
  "remora_models (setup_arguments 2 model_of_modification modbase_fastq_options) \<noteq> []
   \<and> emit_fastq (setup_arguments 2 model_of_modification modbase_fastq_options)
   \<and> setup_impl release_build cpu_platform
        (setup_arguments 2 model_of_modification modbase_fastq_options)
       = Inl (std_runtime_error ''Modified base models cannot be used with FASTQ output'')
   \<and> basecaller release_build cpu_platform 2 model_of_modification
        (parsed modbase_fastq_options) = Exit 1
   \<and> ref (setup_arguments 2 model_of_modification ref_fastq_options) \<noteq> []
   \<and> emit_fastq (setup_arguments 2 model_of_modification ref_fastq_options)
   \<and> setup_impl release_build cpu_platform
        (setup_arguments 2 model_of_modification ref_fastq_options)
       = Inl (std_runtime_error ''Alignment to reference can be used with FASTQ output.'')
   \<and> basecaller release_build cpu_platform 2 model_of_modification
        (parsed ref_fastq_options) = Exit 1
   \<and> basecaller release_build cpu_platform 2 model_of_modification (parsed fastq_options)
       = Exit 0"
proof -
  let ?gm = model_of_modification
  let ?m = "setup_arguments 2 ?gm modbase_fastq_options"
  let ?f = "setup_arguments 2 ?gm ref_fastq_options"
  let ?r = "\<lparr>runner_model_stride = 5, runner_chunk_size = 10000\<rparr>"
  note am = cpu_options_arguments [OF modbase_fastq_options_fields, of ?gm]
  note af = cpu_options_arguments [OF ref_fastq_options_fields, of ?gm]
  have rm: "remora_models ?m \<noteq> []" and fm: "emit_fastq ?m"
    unfolding am by (simp_all add: modbase_fastq_options_def fastq_options_def)
  have rf: "remora_models ?f = []" and ff: "ref ?f \<noteq> []" and qf: "emit_fastq ?f"
    unfolding af by (simp_all add: ref_fastq_options_def fastq_options_def)
  from rm fm have hm: "(remora_models ?m \<noteq> [] \<or> ref ?m \<noteq> []) \<and> emit_fastq ?m" by simp
  from ff qf have hf: "(remora_models ?f \<noteq> [] \<or> ref ?f \<noteq> []) \<and> emit_fastq ?f" by simp
  have nd: "ndebug release_build" by (simp add: release_build_def)
  have cm: "create_runners release_build cpu_platform ?m = Inr (8, 1, ?r # [?r])
     \<and> runner_model_stride ?r \<noteq> 0
     \<and> (ndebug release_build
         \<or> list_all (\<lambda>runner. runner_model_stride runner = runner_model_stride ?r
                       \<and> runner_chunk_size runner = runner_chunk_size ?r) (?r # [?r]))"
    by (simp add: cpu_options_runners [OF modbase_fastq_options_fields] nd)
  have cf: "create_runners release_build cpu_platform ?f = Inr (8, 1, ?r # [?r])
     \<and> runner_model_stride ?r \<noteq> 0
     \<and> (ndebug release_build
         \<or> list_all (\<lambda>runner. runner_model_stride runner = runner_model_stride ?r
                       \<and> runner_chunk_size runner = runner_chunk_size ?r) (?r # [?r]))"
    by (simp add: cpu_options_runners [OF ref_fastq_options_fields] nd)
  have nm: "\<not> (opt_modified_bases modbase_fastq_options \<noteq> []
              \<and> opt_modified_bases_models modbase_fastq_options \<noteq> [])"
    by (simp add: modbase_fastq_options_fields)
  have nf: "\<not> (opt_modified_bases ref_fastq_options \<noteq> []
              \<and> opt_modified_bases_models ref_fastq_options \<noteq> [])"
    by (simp add: ref_fastq_options_fields)
  note m = incompatible_options_rejected [OF hm, of release_build cpu_platform 2 ?gm]
  note f = incompatible_options_rejected [OF hf, of release_build cpu_platform 2 ?gm]
  from m [THEN conjunct2, THEN conjunct1, THEN spec, THEN spec, THEN spec, THEN spec,
      THEN mp, OF cm] rm
  have sm: "setup_impl release_build cpu_platform ?m
       = Inl (std_runtime_error ''Modified base models cannot be used with FASTQ output'')"
    by simp
  from f [THEN conjunct2, THEN conjunct1, THEN spec, THEN spec, THEN spec, THEN spec,
      THEN mp, OF cf] rf
  have sf: "setup_impl release_build cpu_platform ?f
       = Inl (std_runtime_error ''Alignment to reference can be used with FASTQ output.'')"
    by simp
  have em: "setup_impl release_build cpu_platform ?m
       = Inl (std_runtime_error ''Modified base models cannot be used with FASTQ output'')
     \<and> is_std_exception
         (std_runtime_error ''Modified base models cannot be used with FASTQ output'')"
    using sm by simp
  have ef: "setup_impl release_build cpu_platform ?f
       = Inl (std_runtime_error ''Alignment to reference can be used with FASTQ output.'')
     \<and> is_std_exception
         (std_runtime_error ''Alignment to reference can be used with FASTQ output.'')"
    using sf by simp
  note bm = m [THEN conjunct2, THEN conjunct2, THEN conjunct1, THEN spec, THEN mp,
      OF conjI [OF refl nm], THEN conjunct2, THEN spec, THEN mp, OF em]
  note bf = f [THEN conjunct2, THEN conjunct2, THEN conjunct1, THEN spec, THEN mp,
      OF conjI [OF refl nf], THEN conjunct2, THEN spec, THEN mp, OF ef]
  have ok: "\<exists>opts built. parsed fastq_options = parsed opts
      \<and> \<not> (opt_modified_bases opts \<noteq> [] \<and> opt_modified_bases_models opts \<noteq> [])
      \<and> setup_impl release_build cpu_platform (setup_arguments 2 ?gm opts) = Inr built"
  proof (intro exI conjI)
    show "parsed fastq_options = parsed fastq_options" ..
    show "\<not> (opt_modified_bases fastq_options \<noteq> []
              \<and> opt_modified_bases_models fastq_options \<noteq> [])"
      by (simp add: fastq_options_fields)
    show "setup_impl release_build cpu_platform (setup_arguments 2 ?gm fastq_options)
      = Inr \<lparr>basecaller_runners = [?r, ?r], basecaller_batch_size = 8,
              basecaller_chunk_size = 10000, basecaller_overlap = 500,
              basecaller_model_stride = 5, pipeline_num_devices = 1,
              pipeline_remora_models = [], pipeline_ref = [], pipeline_emit_fastq = True\<rparr>"
      by (rule fastq_options_setup)
  qed
  note b0 = m [THEN conjunct2, THEN conjunct2, THEN conjunct2, THEN conjunct2, THEN conjunct2,
      THEN conjunct2, THEN spec, THEN iffD2, OF ok]
  from rm fm sm bm ff qf sf bf b0
  show ?thesis by (intro conjI)
qed

text \<open>
  C5, at an input where the code does not do what the claim says.  A build without GPU
  support is run with \<open>-x cuda:0 --modified-bases-models model_5mCG --emit-fastq\<close>.  No
  device branch handles the device, the vector of runners stays empty, and \<open>setup\<close> reads
  \<open>runners.front()\<close> before it comes to the option checks: nothing is thrown, nothing is
  caught, and the process has no defined exit code.  A Metal build throws "Unsupported
  device: cuda:0" for the same options, and \<open>basecaller\<close> returns 1.
\<close>

theorem basecaller_unsupported_device_without_gpu:
  "remora_models (setup_arguments 2 model_of_modification cuda_modbase_fastq_options) \<noteq> []
   \<and> emit_fastq (setup_arguments 2 model_of_modification cuda_modbase_fastq_options)
   \<and> device (setup_arguments 2 model_of_modification cuda_modbase_fastq_options) = ''cuda:0''
   \<and> create_runners release_build cpu_platform
        (setup_arguments 2 model_of_modification cuda_modbase_fastq_options)
       = Inr (0, 1, [])
   \<and> setup_impl release_build cpu_platform
        (setup_arguments 2 model_of_modification cuda_modbase_fastq_options)
       = Inl (undefined_behaviour ''front() of an empty vector'')
   \<and> basecaller release_build cpu_platform 2 model_of_modification
        (parsed cuda_modbase_fastq_options) = Unspecified
   \<and> setup_impl metal_build cpu_platform
        (setup_arguments 2 model_of_modification cuda_modbase_fastq_options)
       = Inl (std_runtime_error ''Unsupported device: cuda:0'')
   \<and> basecaller metal_build cpu_platform 2 model_of_modification
        (parsed cuda_modbase_fastq_options) = Exit 1"
proof -
  let ?a = "setup_arguments 2 model_of_modification cuda_modbase_fastq_options"
  have fields: "opt_modified_bases cuda_modbase_fastq_options = []"
    "opt_modified_bases_models cuda_modbase_fastq_options = ''model_5mCG''"
    "opt_device cuda_modbase_fastq_options = ''cuda:0''"
    "opt_emit_fastq cuda_modbase_fastq_options"
    "opt_batchsize cuda_modbase_fastq_options = 0"
    by (simp_all add: cuda_modbase_fastq_options_def modbase_fastq_options_def
        fastq_options_def)
  have args: "remora_models ?a = ''model_5mCG''" "emit_fastq ?a" "device ?a = ''cuda:0''"
    "batch_size ?a = 0"
    by (simp_all add: setup_arguments_def fields size_t_of_int_def)
  have r: "remora_models ?a \<noteq> []" by (simp add: args)
  have no_gpu: "gpu release_build = NO_GPU_BUILD" and metal: "gpu metal_build = APPLE_GPU_BUILD"
    by (simp_all add: release_build_def metal_build_def)
  have c: "create_runners release_build cpu_platform ?a = Inr (0, 1, [])"
    by (simp add: create_runners_def args no_gpu)
  have s: "setup_impl release_build cpu_platform ?a
            = Inl (undefined_behaviour ''front() of an empty vector'')"
    by (simp add: setup_impl_def c)
  have b: "basecaller release_build cpu_platform 2 model_of_modification
             (parsed cuda_modbase_fastq_options) = Unspecified"
    by (simp add: basecaller_def fields s)
  have cm: "create_runners metal_build cpu_platform ?a
             = Inl (std_runtime_error ''Unsupported device: cuda:0'')"
    by (simp add: create_runners_def args metal)
  have sm: "setup_impl metal_build cpu_platform ?a
             = Inl (std_runtime_error ''Unsupported device: cuda:0'')"
    by (simp add: setup_impl_def cm)
  have bm: "basecaller metal_build cpu_platform 2 model_of_modification
             (parsed cuda_modbase_fastq_options) = Exit 1"
    by (simp add: basecaller_def fields sm)
  from r args(2) args(3) c s b sm bm show ?thesis by (intro conjI)
qed

section \<open>Properties of the poly-A configuration\<close>

text \<open>
  C6.  For a file whose primers are both given or both absent: with
  \<open>plasmid_front_flank = "CGTA"\<close>, \<open>plasmid_rear_flank = "ACTG"\<close> and
  \<open>tail.tail_interrupt_length = 10\<close>, \<open>prepare_config\<close> returns a configuration with
  \<open>is_plasmid\<close> set, \<open>rc_plasmid_front_flank = "TACG"\<close>, \<open>rc_plasmid_rear_flank = "CAGT"\<close>
  and \<open>tail_interrupt_length = 10\<close>; with exactly one of the two plasmid flanks it throws,
  and the message begins with "Both plasmid_front_flank and plasmid_rear_flank must be
  provided" (it goes on with " in the PolyA configuration file.").
\<close>

theorem prepare_config_plasmid:
  assumes "(anchors_front_primer toml = None) = (anchors_rear_primer toml = None)"
  shows "(anchors_plasmid_front_flank toml = Some ''CGTA''
          \<and> anchors_plasmid_rear_flank toml = Some ''ACTG''
          \<and> tail_tail_interrupt_length toml = Some 10 \<longrightarrow>
            (\<exists>config. prepare_config defaults toml = Inr config
               \<and> is_plasmid config
               \<and> rc_plasmid_front_flank config = ''TACG''
               \<and> rc_plasmid_rear_flank config = ''CAGT''
               \<and> tail_interrupt_length config = 10))
    \<and> ((anchors_plasmid_front_flank toml = None) \<noteq> (anchors_plasmid_rear_flank toml = None)
          \<longrightarrow>
            prepare_config defaults toml
              = Inl (std_runtime_error
                  (''Both plasmid_front_flank and plasmid_rear_flank must be provided''
                   @ '' in the PolyA configuration file.''))
            \<and> prefix ''Both plasmid_front_flank and plasmid_rear_flank must be provided''
                 (''Both plasmid_front_flank and plasmid_rear_flank must be provided''
                   @ '' in the PolyA configuration file.''))"
proof (intro conjI impI)
  assume given: "anchors_plasmid_front_flank toml = Some ''CGTA''
          \<and> anchors_plasmid_rear_flank toml = Some ''ACTG''
          \<and> tail_tail_interrupt_length toml = Some 10"
  have rc: "reverse_complement ''CGTA'' = ''TACG''" "reverse_complement ''ACTG'' = ''CAGT''"
    by (simp_all add: reverse_complement_def)
  from assms given rc
  show "\<exists>config. prepare_config defaults toml = Inr config
               \<and> is_plasmid config
               \<and> rc_plasmid_front_flank config = ''TACG''
               \<and> rc_plasmid_rear_flank config = ''CAGT''
               \<and> tail_interrupt_length config = 10"
    by (simp add: prepare_config_def Let_def split: option.split)
next
  assume "(anchors_plasmid_front_flank toml = None) \<noteq> (anchors_plasmid_rear_flank toml = None)"
  with assms
  show "prepare_config defaults toml
              = Inl (std_runtime_error
                  (''Both plasmid_front_flank and plasmid_rear_flank must be provided''
                   @ '' in the PolyA configuration file.''))"
    by (simp add: prepare_config_def)
next
  show "prefix ''Both plasmid_front_flank and plasmid_rear_flank must be provided''
                 (''Both plasmid_front_flank and plasmid_rear_flank must be provided''
                   @ '' in the PolyA configuration file.'')"
    by (rule prefixI) (rule refl)
qed

theorem prepare_config_plasmid_witness:
  "(anchors_front_primer all_supported_toml = None)
     = (anchors_rear_primer all_supported_toml = None)
   \<and> anchors_plasmid_front_flank all_supported_toml = Some ''CGTA''
   \<and> anchors_plasmid_rear_flank all_supported_toml = Some ''ACTG''
   \<and> tail_tail_interrupt_length all_supported_toml = Some 10
   \<and> (\<exists>config. prepare_config default_config all_supported_toml = Inr config
         \<and> is_plasmid config
         \<and> rc_plasmid_front_flank config = ''TACG''
         \<and> rc_plasmid_rear_flank config = ''CAGT''
         \<and> tail_interrupt_length config = 10)
   \<and> (anchors_front_primer only_one_flank_toml = None)
       = (anchors_rear_primer only_one_flank_toml = None)
   \<and> (anchors_plasmid_front_flank only_one_flank_toml = None)
       \<noteq> (anchors_plasmid_rear_flank only_one_flank_toml = None)
   \<and> prepare_config default_config only_one_flank_toml
       = Inl (std_runtime_error
           (''Both plasmid_front_flank and plasmid_rear_flank must be provided''
            @ '' in the PolyA configuration file.''))"
proof -
  have p: "(anchors_front_primer all_supported_toml = None)
     = (anchors_rear_primer all_supported_toml = None)"
    by (simp add: all_supported_toml_def)
  have g: "anchors_plasmid_front_flank all_supported_toml = Some ''CGTA''
          \<and> anchors_plasmid_rear_flank all_supported_toml = Some ''ACTG''
          \<and> tail_tail_interrupt_length all_supported_toml = Some 10"
    by (simp add: all_supported_toml_def)
  have q: "(anchors_front_primer only_one_flank_toml = None)
       = (anchors_rear_primer only_one_flank_toml = None)"
    by (simp add: only_one_flank_toml_def)
  have o: "(anchors_plasmid_front_flank only_one_flank_toml = None)
       \<noteq> (anchors_plasmid_rear_flank only_one_flank_toml = None)"
    by (simp add: only_one_flank_toml_def)
  note both = prepare_config_plasmid [OF p, of default_config, THEN conjunct1, THEN mp, OF g]
  note one = prepare_config_plasmid [OF q, of default_config, THEN conjunct2, THEN mp, OF o,
      THEN conjunct1]
  from p g [THEN conjunct1] g [THEN conjunct2, THEN conjunct1]
    g [THEN conjunct2, THEN conjunct2] both q o one
  show ?thesis by (intro conjI)
qed

end
